theory Spec2Isabelle
  imports Main
begin

section \<open>Storage rows\<close>

text \<open>
  The tables of \<^verbatim>\<open>DATABASE_SCHEMA\<close> (deployment/api/server.py) and of the SQLAlchemy
  models (backend/server_mysql.py), one record per row type. Identifiers are the text of a
  UUID. A naive \<^verbatim>\<open>datetime\<close> is the number of microseconds since 0001-01-01T00:00:00:
  the difference of two readings is then the difference of the numbers, and writing a
  reading with \<^verbatim>\<open>isoformat\<close> and reading it back with \<^verbatim>\<open>fromisoformat\<close> gives the
  same reading. Text columns hold strings of any length and a \<^verbatim>\<open>WHERE column = ?\<close>
  compares them character by character; the store never fails except on a repeated
  primary key. A handler function below is one request run from its first statement to
  its commit with no other request in between; \<open>scan_lookup\<close> and \<open>scan_write\<close> are
  the two parts of a scan between which another request can run.
\<close>

type_synonym timestamp = int

record owner =
  o_id :: string
  o_username :: string
  o_email :: string
  o_password_hash :: string
  o_created_at :: timestamp

record company =
  c_id :: string
  c_name :: string
  c_owner_id :: string
  c_created_at :: timestamp

record user =
  u_id :: string
  u_username :: string
  u_email :: string
  u_password_hash :: string
  u_role :: string
  u_company_id :: string
  u_created_at :: timestamp

record employee =
  e_id :: string
  e_name :: string
  e_surname :: string
  e_position :: string
  e_number :: string
  e_qr_code :: string
  e_company_id :: string
  e_created_at :: timestamp

record time_entry =
  t_id :: string
  t_employee_id :: string
  t_check_in :: "timestamp option"
  t_check_out :: "timestamp option"
  t_date :: string
  t_status :: string
  t_last_scan_time :: "timestamp option"

text \<open>The database: each table is the list of its rows in storage order.\<close>

record db =
  companies :: "company list"
  users :: "user list"
  employees :: "employee list"
  time_entries :: "time_entry list"

section \<open>Errors\<close>

text \<open>
  An \<^verbatim>\<open>HTTPException\<close> carries its status code and its detail. The detail texts are
  partly Polish; each is named by a constructor here, and the cooldown text carries the
  number of seconds it prints. \<open>IntegrityError\<close> is the store's refusal of a second row
  with the same primary key; \<open>MultipleResultsFound\<close> is what SQLAlchemy's
  \<^verbatim>\<open>scalar_one_or_none\<close> raises on more than one row. Neither is caught by a handler.
\<close>

datatype detail =
    Invalid_QR_code
  | Invalid_QR_code_format
  | QR_not_your_company
  | Employee_not_found
  | Wait_seconds int
  | Company_name_exists
  | Username_exists
  | Company_not_found

datatype error =
    HTTPException nat detail
  | IntegrityError
  | MultipleResultsFound

section \<open>Python strings\<close>

definition startswith :: "string \<Rightarrow> string \<Rightarrow> bool" where
  "startswith s p = (take (length p) s = p)"

text \<open>\<^verbatim>\<open>s.split(sep)\<close> for a separator of one character.\<close>

fun str_split :: "char \<Rightarrow> string \<Rightarrow> string list" where
  "str_split sep [] = [[]]"
| "str_split sep (c # cs) =
     (if c = sep then [] # str_split sep cs
      else (case str_split sep cs of
              [] \<Rightarrow> [[c]]
            | p # ps \<Rightarrow> (c # p) # ps))"

section \<open>The QR payload\<close>

text \<open>
  \<^verbatim>\<open>create_employee\<close> builds the payload as
  \<^verbatim>\<open>f"EMP_{company_id}_{employee_data.number}_{str(uuid.uuid4())[:8]}"\<close>;
  the eight characters of the fresh UUID are the argument \<open>suffix\<close>.
\<close>

definition encode_qr :: "string \<Rightarrow> string \<Rightarrow> string \<Rightarrow> string" where
  "encode_qr company_id number suffix =
     ''EMP_'' @ company_id @ ''_'' @ number @ ''_'' @ suffix"

text \<open>
  The first lines of \<^verbatim>\<open>scan_qr\<close>: the prefix test, the split at underscores, the test
  of the number of parts, and the two parts read.
\<close>

definition decode_qr :: "string \<Rightarrow> error + (string \<times> string)" where
  "decode_qr qr_data =
     (if \<not> startswith qr_data ''EMP_'' then Inl (HTTPException 400 Invalid_QR_code)
      else let parts = str_split (CHR ''_'') qr_data in
        if length parts < 3 then Inl (HTTPException 400 Invalid_QR_code_format)
        else Inr (parts ! 1, parts ! 2))"

section \<open>The clock\<close>

text \<open>
  \<^verbatim>\<open>scan_qr\<close> reads the clock three times: for \<^verbatim>\<open>today\<close> (kept as the text
  \<^verbatim>\<open>strftime("%Y-%m-%d")\<close> gives), for \<^verbatim>\<open>current_time\<close>, and for
  \<^verbatim>\<open>check_in_time\<close> or \<^verbatim>\<open>check_out_time\<close> in the branch taken.
\<close>

record clock =
  today :: string
  current_time :: timestamp
  action_time :: timestamp

definition two_digits :: "nat \<Rightarrow> string" where
  "two_digits n = [''0123456789'' ! ((n div 10) mod 10), ''0123456789'' ! (n mod 10)]"

text \<open>\<^verbatim>\<open>strftime("%H:%M:%S")\<close> of a naive reading.\<close>

definition strftime_HMS :: "timestamp \<Rightarrow> string" where
  "strftime_HMS t =
     (let s = nat ((t div 1000000) mod 86400)
      in two_digits (s div 3600) @ '':'' @ two_digits ((s div 60) mod 60) @ '':'' @
         two_digits (s mod 60))"

definition COOLDOWN_SECONDS :: int where
  "COOLDOWN_SECONDS = 5"

text \<open>
  Python floats are binary64. A finite double is written here as a pair \<open>(s, e)\<close> of
  integers standing for \<open>s * 2 ^ e\<close>. \<open>binary64 n d\<close> is the double nearest to the
  quotient \<open>n / d\<close> (\<open>d > 0\<close>), ties going to the even significand of 53 bits: the
  result of Python's true division of two integers, and of any float operation whose exact
  result is \<open>n / d\<close>. The exponent range is not limited: the elapsed seconds between
  two datetimes are far inside it.
\<close>

function bit_length :: "int \<Rightarrow> nat" where
  "bit_length n = (if n \<le> 0 then 0 else Suc (bit_length (n div 2)))"
  by pat_completeness auto
termination
  by (relation "measure nat") auto

declare bit_length.simps [simp del]

definition shift_left :: "int \<Rightarrow> int \<Rightarrow> int" where
  "shift_left p e = p * 2 ^ nat e"

definition round_half_even :: "int \<Rightarrow> int \<Rightarrow> int" where
  "round_half_even p q =
     (let f = p div q; r = p mod q
      in if 2 * r < q then f else if q < 2 * r then f + 1 else if even f then f else f + 1)"

definition binary64 :: "int \<Rightarrow> int \<Rightarrow> int \<times> int" where
  "binary64 n d =
     (if n = 0 then (0, 0)
      else
        let a = \<bar>n\<bar>;
            e0 = int (bit_length a) - int (bit_length d);
            ex = (if shift_left d e0 \<le> shift_left a (- e0) then e0 else e0 - 1);
            e = ex - 52;
            s = round_half_even (shift_left a (- e)) (shift_left d e)
        in (sgn n * s, e))"

text \<open>\<^verbatim>\<open>k - x\<close> for an integer \<open>k\<close> and a double \<open>x\<close>: the exact difference, rounded.\<close>

definition float_rsub :: "int \<Rightarrow> int \<times> int \<Rightarrow> int \<times> int" where
  "float_rsub k x =
     (case x of (s, e) \<Rightarrow>
        binary64 (k * shift_left 1 (- e) - shift_left s e) (shift_left 1 (- e)))"

text \<open>Python's \<^verbatim>\<open>int(x)\<close> of a double: rounding towards zero.\<close>

definition py_int :: "int \<times> int \<Rightarrow> int" where
  "py_int x =
     (case x of (s, e) \<Rightarrow>
        if 0 \<le> s then shift_left s e div shift_left 1 (- e)
        else - (shift_left (- s) e div shift_left 1 (- e)))"

text \<open>
  The microseconds of \<^verbatim>\<open>current_time - last_scan\<close>, and the double
  \<^verbatim>\<open>(current_time - last_scan).total_seconds()\<close> that the code calls
  \<^verbatim>\<open>time_diff\<close>: the microseconds divided by \<open>10 ^ 6\<close>.
\<close>

definition time_diff :: "timestamp \<Rightarrow> timestamp \<Rightarrow> int" where
  "time_diff now last_scan = now - last_scan"

definition total_seconds :: "int \<Rightarrow> int \<times> int" where
  "total_seconds microseconds = binary64 microseconds 1000000"

text \<open>\<^verbatim>\<open>int(COOLDOWN_SECONDS - time_diff)\<close>, computed in doubles as the code does.\<close>

definition remaining_seconds :: "timestamp \<Rightarrow> timestamp \<Rightarrow> int" where
  "remaining_seconds now last_scan =
     py_int (float_rsub COOLDOWN_SECONDS (total_seconds (time_diff now last_scan)))"

text \<open>
  The cooldown test on the open entry found: \<open>Some\<close> of the seconds to wait when the
  scan is refused, \<open>None\<close> when the entry has no \<^verbatim>\<open>last_scan_time\<close> or the
  cooldown has passed. The test \<^verbatim>\<open>time_diff < COOLDOWN_SECONDS\<close> is made on the
  microseconds: rounding to the nearest double keeps the order and 5 is a double, so the
  quotient is below 5 exactly when the microseconds are below 5000000.
\<close>

definition cooldown_check :: "timestamp \<Rightarrow> time_entry \<Rightarrow> int option" where
  "cooldown_check now existing_entry =
     (case t_last_scan_time existing_entry of
        None \<Rightarrow> None
      | Some last_scan \<Rightarrow>
          if time_diff now last_scan < COOLDOWN_SECONDS * 1000000
          then Some (remaining_seconds now last_scan)
          else None)"

section \<open>Scanning\<close>

record scan_response =
  r_action :: string
  r_employee :: string
  r_time :: string
  r_cooldown_seconds :: int

definition is_open :: "string \<Rightarrow> string \<Rightarrow> time_entry \<Rightarrow> bool" where
  "is_open employee_id date t =
     (t_employee_id t = employee_id \<and> t_date t = date \<and> t_status t = ''working'')"

text \<open>
  \<^verbatim>\<open>UPDATE time_entries SET check_out = ?, status = ?, last_scan_time = ? WHERE id = ?\<close>
\<close>

definition check_out_entry :: "string \<Rightarrow> timestamp \<Rightarrow> time_entry \<Rightarrow> time_entry" where
  "check_out_entry entry_id at t =
     (if t_id t = entry_id
      then t\<lparr>t_check_out := Some at, t_status := ''completed'', t_last_scan_time := Some at\<rparr>
      else t)"

text \<open>
  The row of
  \<^verbatim>\<open>INSERT INTO time_entries (id, employee_id, check_in, date, status, last_scan_time)\<close>;
  the column \<^verbatim>\<open>check_out\<close> is left null.
\<close>

definition check_in_entry :: "string \<Rightarrow> string \<Rightarrow> string \<Rightarrow> timestamp \<Rightarrow> time_entry" where
  "check_in_entry entry_id employee_id date at =
     \<lparr>t_id = entry_id, t_employee_id = employee_id, t_check_in = Some at,
      t_check_out = None, t_date = date, t_status = ''working'',
      t_last_scan_time = Some at\<rparr>"

text \<open>
  \<^verbatim>\<open>scan_qr\<close>. The arguments are the payload, the caller's company (from the
  authenticated user), the clock readings, the fresh UUID for a new entry, and the
  database; the result is the response or the error, and the database afterwards.
\<close>

definition scan_qr ::
  "string \<Rightarrow> string \<Rightarrow> clock \<Rightarrow> string \<Rightarrow> db \<Rightarrow> (error + scan_response) \<times> db" where
  "scan_qr qr_data company_id clk entry_id d =
     (case decode_qr qr_data of
        Inl err \<Rightarrow> (Inl err, d)
      | Inr (qr_company_id, employee_number) \<Rightarrow>
          if qr_company_id \<noteq> company_id
          then (Inl (HTTPException 403 QR_not_your_company), d)
          else
            (case find (\<lambda>e. e_number e = employee_number \<and> e_company_id e = company_id)
                    (employees d) of
               None \<Rightarrow> (Inl (HTTPException 404 Employee_not_found), d)
             | Some employee \<Rightarrow>
                 (case find (is_open (e_id employee) (today clk)) (time_entries d) of
                    Some existing_entry \<Rightarrow>
                      (case cooldown_check (current_time clk) existing_entry of
                         Some remaining \<Rightarrow>
                           (Inl (HTTPException 429 (Wait_seconds remaining)), d)
                       | None \<Rightarrow>
                           (Inr \<lparr>r_action = ''check_out'',
                                 r_employee = e_name employee @ '' '' @ e_surname employee,
                                 r_time = strftime_HMS (action_time clk),
                                 r_cooldown_seconds = COOLDOWN_SECONDS\<rparr>,
                            d\<lparr>time_entries :=
                                 map (check_out_entry (t_id existing_entry) (action_time clk))
                                   (time_entries d)\<rparr>))
                  | None \<Rightarrow>
                      if entry_id \<in> t_id ` set (time_entries d)
                      then (Inl IntegrityError, d)
                      else
                        (Inr \<lparr>r_action = ''check_in'',
                              r_employee = e_name employee @ '' '' @ e_surname employee,
                              r_time = strftime_HMS (action_time clk),
                              r_cooldown_seconds = COOLDOWN_SECONDS\<rparr>,
                         d\<lparr>time_entries := time_entries d @
                              [check_in_entry entry_id (e_id employee) (today clk)
                                 (action_time clk)]\<rparr>))))"

text \<open>
  \<^verbatim>\<open>scan_qr\<close> in two parts. Every \<^verbatim>\<open>await\<close> of the handler lets another request
  run, and each request has a connection of its own (\<^verbatim>\<open>get_db\<close>), so between the
  \<^verbatim>\<open>SELECT\<close> of the open entry and the \<^verbatim>\<open>UPDATE\<close> or \<^verbatim>\<open>INSERT\<close> the database
  can change. \<open>scan_lookup\<close> is the handler up to and including that \<^verbatim>\<open>SELECT\<close>: it
  returns the employee and the open entry read, or the error raised. \<open>scan_write\<close> is
  the rest, run on what was read and on the database as it is by then.
\<close>

definition scan_lookup ::
  "string \<Rightarrow> string \<Rightarrow> clock \<Rightarrow> db \<Rightarrow> error + (employee \<times> time_entry option)" where
  "scan_lookup qr_data company_id clk d =
     (case decode_qr qr_data of
        Inl err \<Rightarrow> Inl err
      | Inr (qr_company_id, employee_number) \<Rightarrow>
          if qr_company_id \<noteq> company_id
          then Inl (HTTPException 403 QR_not_your_company)
          else
            (case find (\<lambda>e. e_number e = employee_number \<and> e_company_id e = company_id)
                    (employees d) of
               None \<Rightarrow> Inl (HTTPException 404 Employee_not_found)
             | Some employee \<Rightarrow>
                 Inr (employee,
                      find (is_open (e_id employee) (today clk)) (time_entries d))))"

definition scan_write ::
  "clock \<Rightarrow> string \<Rightarrow> employee \<times> time_entry option \<Rightarrow> db \<Rightarrow>
     (error + scan_response) \<times> db" where
  "scan_write clk entry_id found d =
     (case found of
        (employee, Some existing_entry) \<Rightarrow>
          (case cooldown_check (current_time clk) existing_entry of
             Some remaining \<Rightarrow> (Inl (HTTPException 429 (Wait_seconds remaining)), d)
           | None \<Rightarrow>
               (Inr \<lparr>r_action = ''check_out'',
                     r_employee = e_name employee @ '' '' @ e_surname employee,
                     r_time = strftime_HMS (action_time clk),
                     r_cooldown_seconds = COOLDOWN_SECONDS\<rparr>,
                d\<lparr>time_entries :=
                     map (check_out_entry (t_id existing_entry) (action_time clk))
                       (time_entries d)\<rparr>))
      | (employee, None) \<Rightarrow>
          if entry_id \<in> t_id ` set (time_entries d)
          then (Inl IntegrityError, d)
          else
            (Inr \<lparr>r_action = ''check_in'',
                  r_employee = e_name employee @ '' '' @ e_surname employee,
                  r_time = strftime_HMS (action_time clk),
                  r_cooldown_seconds = COOLDOWN_SECONDS\<rparr>,
             d\<lparr>time_entries := time_entries d @
                  [check_in_entry entry_id (e_id employee) (today clk)
                     (action_time clk)]\<rparr>))"

text \<open>A run of scans, each with its own payload, caller, clock readings and fresh UUID.\<close>

record scan_request =
  sq_qr_data :: string
  sq_company_id :: string
  sq_clock :: clock
  sq_entry_id :: string

fun run_scans :: "scan_request list \<Rightarrow> db \<Rightarrow> db" where
  "run_scans [] d = d"
| "run_scans (rq # rqs) d =
     run_scans rqs
       (snd (scan_qr (sq_qr_data rq) (sq_company_id rq) (sq_clock rq) (sq_entry_id rq) d))"

section \<open>Creating a company\<close>

text \<open>
  What a creation takes from outside the database: the two fresh UUIDs, the digest
  \<^verbatim>\<open>get_password_hash\<close> returns (bcrypt salts it, so it is no function of the password),
  and the two readings of \<^verbatim>\<open>datetime.utcnow()\<close>.
\<close>

record fresh_values =
  f_company_id :: string
  f_admin_user_id :: string
  f_password_hash :: string
  f_company_created_at :: timestamp
  f_user_created_at :: timestamp

record company_registration =
  reg_company_name :: string
  reg_admin_username :: string
  reg_admin_email :: string
  reg_admin_password :: string

record company_create =
  cc_name :: string
  cc_admin_username :: string
  cc_admin_email :: string
  cc_admin_password :: string

text \<open>
  The \<^verbatim>\<open>user\<close> part of the token response of \<^verbatim>\<open>register_company\<close>; the access
  token itself is the output of the signing service and is left out.
\<close>

record register_response =
  rr_id :: string
  rr_username :: string
  rr_email :: string
  rr_role :: string
  rr_company_id :: string

record create_company_response =
  cr_company_id :: string
  cr_company_name :: string
  cr_company_owner_id :: string
  cr_company_created_at :: timestamp
  cr_admin_id :: string
  cr_admin_username :: string
  cr_admin_email :: string
  cr_admin_role :: string

definition new_company :: "string \<Rightarrow> string \<Rightarrow> fresh_values \<Rightarrow> company" where
  "new_company name owner_id fv =
     \<lparr>c_id = f_company_id fv, c_name = name, c_owner_id = owner_id,
      c_created_at = f_company_created_at fv\<rparr>"

definition new_admin :: "string \<Rightarrow> string \<Rightarrow> fresh_values \<Rightarrow> user" where
  "new_admin username email fv =
     \<lparr>u_id = f_admin_user_id fv, u_username = username, u_email = email,
      u_password_hash = f_password_hash fv, u_role = ''admin'',
      u_company_id = f_company_id fv, u_created_at = f_user_created_at fv\<rparr>"

text \<open>
  \<^verbatim>\<open>register_company\<close> (deployment/api/server.py). Both \<^verbatim>\<open>INSERT\<close>s run on one
  connection and the only \<^verbatim>\<open>commit\<close> follows the second: a primary-key clash at either
  leaves the handler by an exception before the commit, and the connection closes with
  nothing written.
\<close>

definition register_company ::
  "company_registration \<Rightarrow> fresh_values \<Rightarrow> db \<Rightarrow> (error + register_response) \<times> db" where
  "register_company company_data fv d =
     (case find (\<lambda>c. c_name c = reg_company_name company_data) (companies d) of
        Some existing_company \<Rightarrow> (Inl (HTTPException 400 Company_name_exists), d)
      | None \<Rightarrow>
          (case find (\<lambda>u. u_username u = reg_admin_username company_data) (users d) of
             Some existing_user \<Rightarrow> (Inl (HTTPException 400 Username_exists), d)
           | None \<Rightarrow>
               if f_company_id fv \<in> c_id ` set (companies d) then (Inl IntegrityError, d)
               else if f_admin_user_id fv \<in> u_id ` set (users d) then (Inl IntegrityError, d)
               else
                 (Inr \<lparr>rr_id = f_admin_user_id fv,
                       rr_username = reg_admin_username company_data,
                       rr_email = reg_admin_email company_data,
                       rr_role = ''admin'',
                       rr_company_id = f_company_id fv\<rparr>,
                  d\<lparr>companies := companies d @
                       [new_company (reg_company_name company_data) ''system'' fv],
                    users := users d @
                       [new_admin (reg_admin_username company_data)
                          (reg_admin_email company_data) fv]\<rparr>)))"

text \<open>SQLAlchemy's \<^verbatim>\<open>scalar_one_or_none\<close> on the rows a \<^verbatim>\<open>select\<close> returns.\<close>

definition scalar_one_or_none :: "'a list \<Rightarrow> error + 'a option" where
  "scalar_one_or_none rows =
     (case rows of
        [] \<Rightarrow> Inr None
      | [x] \<Rightarrow> Inr (Some x)
      | _ # _ # _ \<Rightarrow> Inl MultipleResultsFound)"

text \<open>
  \<^verbatim>\<open>create_company\<close> (backend/server_mysql_part2.py), for an authenticated owner. The two
  rows are added to the session and written by the one \<^verbatim>\<open>commit\<close>.
\<close>

definition create_company ::
  "company_create \<Rightarrow> owner \<Rightarrow> fresh_values \<Rightarrow> db \<Rightarrow> (error + create_company_response) \<times> db" where
  "create_company company_data current_owner fv d =
     (case scalar_one_or_none (filter (\<lambda>c. c_name c = cc_name company_data) (companies d)) of
        Inl err \<Rightarrow> (Inl err, d)
      | Inr (Some existing_company) \<Rightarrow> (Inl (HTTPException 400 Company_name_exists), d)
      | Inr None \<Rightarrow>
          (case scalar_one_or_none
                  (filter (\<lambda>u. u_username u = cc_admin_username company_data) (users d)) of
             Inl err \<Rightarrow> (Inl err, d)
           | Inr (Some existing_user) \<Rightarrow> (Inl (HTTPException 400 Username_exists), d)
           | Inr None \<Rightarrow>
               if f_company_id fv \<in> c_id ` set (companies d) then (Inl IntegrityError, d)
               else if f_admin_user_id fv \<in> u_id ` set (users d) then (Inl IntegrityError, d)
               else
                 (Inr \<lparr>cr_company_id = f_company_id fv,
                       cr_company_name = cc_name company_data,
                       cr_company_owner_id = o_id current_owner,
                       cr_company_created_at = f_company_created_at fv,
                       cr_admin_id = f_admin_user_id fv,
                       cr_admin_username = cc_admin_username company_data,
                       cr_admin_email = cc_admin_email company_data,
                       cr_admin_role = ''admin''\<rparr>,
                  d\<lparr>companies := companies d @
                       [new_company (cc_name company_data) (o_id current_owner) fv],
                    users := users d @
                       [new_admin (cc_admin_username company_data)
                          (cc_admin_email company_data) fv]\<rparr>)))"

section \<open>Deleting\<close>

text \<open>The four \<^verbatim>\<open>delete\<close> statements of \<^verbatim>\<open>delete_company\<close>, one function each.\<close>

definition delete_time_entries_in :: "string list \<Rightarrow> db \<Rightarrow> db" where
  "delete_time_entries_in employee_ids d =
     d\<lparr>time_entries := filter (\<lambda>t. t_employee_id t \<notin> set employee_ids) (time_entries d)\<rparr>"

definition delete_users_of :: "string \<Rightarrow> db \<Rightarrow> db" where
  "delete_users_of company_id d =
     d\<lparr>users := filter (\<lambda>u. u_company_id u \<noteq> company_id) (users d)\<rparr>"

definition delete_employees_of :: "string \<Rightarrow> db \<Rightarrow> db" where
  "delete_employees_of company_id d =
     d\<lparr>employees := filter (\<lambda>e. e_company_id e \<noteq> company_id) (employees d)\<rparr>"

definition delete_company_row :: "string \<Rightarrow> db \<Rightarrow> db" where
  "delete_company_row company_id d =
     d\<lparr>companies := filter (\<lambda>c. c_id c \<noteq> company_id) (companies d)\<rparr>"

definition employee_ids_of :: "string \<Rightarrow> db \<Rightarrow> string list" where
  "employee_ids_of company_id d =
     map e_id (filter (\<lambda>e. e_company_id e = company_id) (employees d))"

text \<open>\<^verbatim>\<open>delete_company\<close> (backend/server_mysql_part2.py), for an authenticated owner.\<close>

definition delete_company :: "string \<Rightarrow> db \<Rightarrow> (error + string) \<times> db" where
  "delete_company company_id d =
     (case scalar_one_or_none (filter (\<lambda>c. c_id c = company_id) (companies d)) of
        Inl err \<Rightarrow> (Inl err, d)
      | Inr None \<Rightarrow> (Inl (HTTPException 404 Company_not_found), d)
      | Inr (Some company) \<Rightarrow>
          (let employee_ids = employee_ids_of company_id d;
               d1 = (if employee_ids \<noteq> [] then delete_time_entries_in employee_ids d else d);
               d2 = delete_users_of company_id d1;
               d3 = delete_employees_of company_id d2;
               d4 = delete_company_row company_id d3
           in (Inr ''Company and all its data deleted successfully'', d4)))"

text \<open>
  \<^verbatim>\<open>delete_employee\<close> (deployment/api/server.py), for an authenticated admin of
  \<open>company_id\<close>:
  \<^verbatim>\<open>DELETE FROM employees WHERE id = ? AND company_id = ?\<close>, then
  \<^verbatim>\<open>DELETE FROM time_entries WHERE employee_id = ?\<close>.
\<close>

definition delete_employee :: "string \<Rightarrow> string \<Rightarrow> db \<Rightarrow> (error + string) \<times> db" where
  "delete_employee employee_id company_id d =
     (let d1 = d\<lparr>employees :=
                  filter (\<lambda>e. \<not> (e_id e = employee_id \<and> e_company_id e = company_id))
                    (employees d)\<rparr>;
          d2 = d1\<lparr>time_entries :=
                  filter (\<lambda>t. t_employee_id t \<noteq> employee_id) (time_entries d1)\<rparr>
      in (Inr ''Employee deleted successfully'', d2))"

section \<open>Properties of a database\<close>

text \<open>The open entries of an employee on a date.\<close>

definition open_entries :: "string \<Rightarrow> string \<Rightarrow> db \<Rightarrow> time_entry list" where
  "open_entries employee_id date d = filter (is_open employee_id date) (time_entries d)"

text \<open>
  At most one open entry for each employee and date. Only the employees and dates of
  stored entries need checking: every other pair has no entry at all.
\<close>

definition one_open_session :: "db \<Rightarrow> bool" where
  "one_open_session d =
     list_all (\<lambda>t. length (open_entries (t_employee_id t) (t_date t) d) \<le> 1) (time_entries d)"

text \<open>The primary keys and the uniqueness the company handlers keep.\<close>

definition pk_time_entries :: "db \<Rightarrow> bool" where
  "pk_time_entries d = distinct (map t_id (time_entries d))"

definition pk_companies :: "db \<Rightarrow> bool" where
  "pk_companies d = distinct (map c_id (companies d))"

definition unique_company_names :: "db \<Rightarrow> bool" where
  "unique_company_names d = distinct (map c_name (companies d))"

definition unique_usernames :: "db \<Rightarrow> bool" where
  "unique_usernames d = distinct (map u_username (users d))"

definition is_admin_of :: "string \<Rightarrow> user \<Rightarrow> bool" where
  "is_admin_of company_id u = (u_company_id u = company_id \<and> u_role u = ''admin'')"

definition every_company_has_admin :: "db \<Rightarrow> bool" where
  "every_company_has_admin d =
     list_all (\<lambda>c. list_ex (is_admin_of (c_id c)) (users d)) (companies d)"

text \<open>
  What the two uniqueness queries of a creation ask:
  \<^verbatim>\<open>SELECT id FROM companies WHERE name = ?\<close> and
  \<^verbatim>\<open>SELECT id FROM users WHERE username = ?\<close> return a row.
\<close>

definition company_name_taken :: "string \<Rightarrow> db \<Rightarrow> bool" where
  "company_name_taken name d = list_ex (\<lambda>c. c_name c = name) (companies d)"

definition username_taken :: "string \<Rightarrow> db \<Rightarrow> bool" where
  "username_taken username d = list_ex (\<lambda>u. u_username u = username) (users d)"

text \<open>A database with one more company and one more user, and nothing else changed.\<close>

definition with_company :: "company \<Rightarrow> user \<Rightarrow> db \<Rightarrow> db" where
  "with_company c u d = d\<lparr>companies := companies d @ [c], users := users d @ [u]\<rparr>"

text \<open>
  The four deletions of \<^verbatim>\<open>delete_company\<close> in their order: time entries of the
  company's employees, users, employees, the company.
\<close>

definition cascade :: "string \<Rightarrow> db \<Rightarrow> db" where
  "cascade company_id d =
     delete_company_row company_id
       (delete_employees_of company_id
          (delete_users_of company_id
             (delete_time_entries_in (employee_ids_of company_id d) d)))"

section \<open>Example data\<close>

text \<open>
  One company with its admin and one employee, the payload \<^verbatim>\<open>create_employee\<close> would
  issue for that employee, and a clock whose three readings coincide.
\<close>

definition example_company :: company where
  "example_company =
     \<lparr>c_id = ''c1'', c_name = ''Acme'', c_owner_id = ''system'', c_created_at = 0\<rparr>"

definition example_admin :: user where
  "example_admin =
     \<lparr>u_id = ''u1'', u_username = ''alice'', u_email = ''alice@acme.example'',
      u_password_hash = ''$2b$12$digest'', u_role = ''admin'', u_company_id = ''c1'',
      u_created_at = 0\<rparr>"

definition example_employee :: employee where
  "example_employee =
     \<lparr>e_id = ''e1'', e_name = ''James'', e_surname = ''Bond'', e_position = ''agent'',
      e_number = ''007'', e_qr_code = ''data:image/png;base64,iVBORw0KGgo='',
      e_company_id = ''c1'', e_created_at = 0\<rparr>"

definition example_db :: db where
  "example_db =
     \<lparr>companies = [example_company], users = [example_admin],
      employees = [example_employee], time_entries = []\<rparr>"

definition example_qr :: string where
  "example_qr = ''EMP_c1_007_9f1c2ab4''"

definition at_time :: "timestamp \<Rightarrow> clock" where
  "at_time t = \<lparr>today = ''2024-05-01'', current_time = t, action_time = t\<rparr>"

text \<open>The example database after a check-in at 13:05:09.\<close>

definition example_db_working :: db where
  "example_db_working =
     example_db\<lparr>time_entries := [check_in_entry ''t1'' ''e1'' ''2024-05-01'' 47109000000]\<rparr>"

text \<open>The same entry after the check-out at 13:05:15.\<close>

definition example_db_completed :: db where
  "example_db_completed =
     example_db\<lparr>time_entries :=
       [check_out_entry ''t1'' 47115000000
          (check_in_entry ''t1'' ''e1'' ''2024-05-01'' 47109000000)]\<rparr>"

text \<open>The example database with two open entries of the same employee and date.\<close>

definition example_db_two_open :: db where
  "example_db_two_open =
     example_db\<lparr>time_entries :=
       [check_in_entry ''t1'' ''e1'' ''2024-05-01'' 47109000000,
        check_in_entry ''t2'' ''e1'' ''2024-05-01'' 47109100000]\<rparr>"

definition example_request :: "timestamp \<Rightarrow> string \<Rightarrow> scan_request" where
  "example_request t entry_id =
     \<lparr>sq_qr_data = example_qr, sq_company_id = ''c1'', sq_clock = at_time t,
      sq_entry_id = entry_id\<rparr>"

text \<open>
  A second company whose employee has the same number 007, and a database holding both
  companies with one open entry for each employee.
\<close>

definition example_company2 :: company where
  "example_company2 =
     \<lparr>c_id = ''c2'', c_name = ''Globex'', c_owner_id = ''o1'', c_created_at = 100\<rparr>"

definition example_admin2 :: user where
  "example_admin2 =
     \<lparr>u_id = ''u2'', u_username = ''bob'', u_email = ''bob@globex.example'',
      u_password_hash = ''$2b$12$digest2'', u_role = ''admin'', u_company_id = ''c2'',
      u_created_at = 101\<rparr>"

definition example_employee2 :: employee where
  "example_employee2 =
     \<lparr>e_id = ''e2'', e_name = ''Hank'', e_surname = ''Scorpio'', e_position = ''director'',
      e_number = ''007'', e_qr_code = ''data:image/png;base64,iVBORw0KGgp='',
      e_company_id = ''c2'', e_created_at = 102\<rparr>"

definition example_db_two :: db where
  "example_db_two =
     \<lparr>companies = [example_company, example_company2],
      users = [example_admin, example_admin2],
      employees = [example_employee, example_employee2],
      time_entries = [check_in_entry ''t1'' ''e1'' ''2024-05-01'' 47109000000,
                      check_in_entry ''t9'' ''e2'' ''2024-05-01'' 47000000000]\<rparr>"

text \<open>An owner, the values a creation draws, and creation requests by name and username.\<close>

definition example_owner :: owner where
  "example_owner =
     \<lparr>o_id = ''o1'', o_username = ''owner'', o_email = ''owner@system.com'',
      o_password_hash = ''$2b$12$digest0'', o_created_at = 0\<rparr>"

definition example_fresh :: fresh_values where
  "example_fresh =
     \<lparr>f_company_id = ''c2'', f_admin_user_id = ''u2'', f_password_hash = ''$2b$12$digest2'',
      f_company_created_at = 100, f_user_created_at = 101\<rparr>"

definition example_registration :: "string \<Rightarrow> string \<Rightarrow> company_registration" where
  "example_registration name username =
     \<lparr>reg_company_name = name, reg_admin_username = username,
      reg_admin_email = ''bob@globex.example'', reg_admin_password = ''pw2''\<rparr>"

definition example_create :: "string \<Rightarrow> string \<Rightarrow> company_create" where
  "example_create name username =
     \<lparr>cc_name = name, cc_admin_username = username,
      cc_admin_email = ''bob@globex.example'', cc_admin_password = ''pw2''\<rparr>"

lemmas example_defs =
  example_company_def example_admin_def example_employee_def example_db_def example_qr_def
  at_time_def example_db_working_def example_db_completed_def example_request_def
  example_company2_def example_admin2_def example_employee2_def example_db_two_def
  example_owner_def example_fresh_def example_registration_def example_create_def
  example_db_two_open_def

lemmas scan_defs =
  scan_qr_def decode_qr_def startswith_def is_open_def check_in_entry_def check_out_entry_def
  cooldown_check_def time_diff_def COOLDOWN_SECONDS_def
  strftime_HMS_def two_digits_def

section \<open>Splitting and the payload codec\<close>

lemma str_split_not_Nil: "str_split sep s \<noteq> []"
  by (induction s) (auto split: list.splits)

text \<open>The number of fields of a payload is one more than its number of separators.\<close>

lemma length_str_split: "length (str_split sep s) = Suc (count_list s sep)"
  by (induction s) (auto split: list.splits simp: str_split_not_Nil)

lemma str_split_field:
  "sep \<notin> set a \<Longrightarrow> str_split sep (a @ sep # rest) = a # str_split sep rest"
  by (induction a) (auto split: list.splits)

lemma str_split_EMP:
  "str_split (CHR ''_'') (''EMP_'' @ rest) = ''EMP'' # str_split (CHR ''_'') rest"
  using str_split_field [of "CHR ''_''" "''EMP''" rest] by simp

lemma startswith_encode_qr: "startswith (encode_qr company_id number suffix) ''EMP_''"
  by (simp add: startswith_def encode_qr_def)

text \<open>
  Decoding gives back the company id and the number whenever neither contains an
  underscore, whatever the suffix is.
\<close>

lemma decode_encode_qr:
  assumes "CHR ''_'' \<notin> set company_id" and "CHR ''_'' \<notin> set number"
  shows "decode_qr (encode_qr company_id number suffix) = Inr (company_id, number)"
proof -
  let ?u = "CHR ''_''"
  have "str_split ?u (encode_qr company_id number suffix)
      = ''EMP'' # company_id # number # str_split ?u suffix"
    using str_split_field [OF assms(1), of "number @ ''_'' @ suffix"]
      str_split_field [OF assms(2), of suffix]
      str_split_EMP [of "company_id @ ''_'' @ number @ ''_'' @ suffix"]
    by (simp add: encode_qr_def)
  then show ?thesis
    by (simp add: decode_qr_def startswith_encode_qr Let_def)
qed

lemma decode_encode_qr_example:
  "decode_qr (encode_qr ''c1'' ''007'' ''9f1c2ab4'') = Inr (''c1'', ''007'')"
  by (rule decode_encode_qr) simp_all

text \<open>
  C4. \<^verbatim>\<open>create_employee\<close> accepts any text as the employee number. For the number
  \<^verbatim>\<open>0_7\<close> the payload it issues decodes to the number \<^verbatim>\<open>0\<close>: the round trip does not
  give back the number encoded.
\<close>

theorem decode_encode_qr_underscore_number:
  "decode_qr (encode_qr ''123e4567-e89b-42d3-a456-426614174000'' ''0_7'' ''9f1c2ab4'')
     = Inr (''123e4567-e89b-42d3-a456-426614174000'', ''0'')"
  by (simp add: decode_qr_def encode_qr_def startswith_def)

text \<open>
  What the code refuses with status 400: a payload that does not start with \<^verbatim>\<open>EMP_\<close>
  or that splits into fewer than three fields. The scan answers 400 in these cases only,
  and then returns the database as it was.
\<close>

lemma decode_qr_400_iff:
  "(\<exists>dt. decode_qr qr_data = Inl (HTTPException 400 dt)) \<longleftrightarrow>
     (\<not> startswith qr_data ''EMP_'' \<or> length (str_split (CHR ''_'') qr_data) < 3)"
  by (auto simp: decode_qr_def Let_def)

lemma decode_qr_Inl: "decode_qr qr_data = Inl e \<Longrightarrow> \<exists>dt. e = HTTPException 400 dt"
  by (auto simp: decode_qr_def Let_def split: if_splits)

lemma scan_qr_400_iff:
  "(\<exists>dt. fst (scan_qr qr_data company_id clk entry_id d) = Inl (HTTPException 400 dt)) \<longleftrightarrow>
     (\<not> startswith qr_data ''EMP_'' \<or> length (str_split (CHR ''_'') qr_data) < 3)"
  unfolding decode_qr_400_iff [symmetric]
  by (auto simp: scan_qr_def split: sum.splits option.splits prod.splits dest: decode_qr_Inl)

lemma scan_qr_decode_error:
  "decode_qr qr_data = Inl e \<Longrightarrow> scan_qr qr_data company_id clk entry_id d = (Inl e, d)"
  by (simp add: scan_qr_def)

text \<open>
  C7. The payload \<^verbatim>\<open>EMP_c1_007\<close> has three fields and \<^verbatim>\<open>EMP_c1_007_a_b_c\<close> has six,
  where the format \<^verbatim>\<open>EMP_COMPANYID_NUMBER_UUID\<close> has four. Both are decoded, and the
  scan of either checks the example employee in.
\<close>

theorem wrong_field_count_accepted:
  "length (str_split (CHR ''_'') ''EMP_c1_007'') = 3
   \<and> decode_qr ''EMP_c1_007'' = Inr (''c1'', ''007'')
   \<and> scan_qr ''EMP_c1_007'' ''c1'' (at_time 47109000000) ''t1'' example_db
       = (Inr \<lparr>r_action = ''check_in'', r_employee = ''James Bond'', r_time = ''13:05:09'',
               r_cooldown_seconds = 5\<rparr>,
          example_db_working)
   \<and> length (str_split (CHR ''_'') ''EMP_c1_007_a_b_c'') = 6
   \<and> decode_qr ''EMP_c1_007_a_b_c'' = Inr (''c1'', ''007'')
   \<and> scan_qr ''EMP_c1_007_a_b_c'' ''c1'' (at_time 47109000000) ''t1'' example_db
       = (Inr \<lparr>r_action = ''check_in'', r_employee = ''James Bond'', r_time = ''13:05:09'',
               r_cooldown_seconds = 5\<rparr>,
          example_db_working)"
  by (simp add: scan_defs example_defs)

section \<open>Cross-tenant payloads\<close>

text \<open>
  C3. A payload that decodes to company \<open>a\<close>, scanned by a caller of company \<open>b \<noteq> a\<close>,
  is refused with status 403 and the database is returned as it was. The result is the
  same for every database, so no table is read on the way: in particular it does not
  matter whether the number exists among the employees of \<open>b\<close>.
\<close>

theorem cross_tenant_scan_forbidden:
  assumes "decode_qr qr_data = Inr (a, employee_number)" and "a \<noteq> b"
  shows "scan_qr qr_data b clk entry_id d = (Inl (HTTPException 403 QR_not_your_company), d)"
  using assms by (simp add: scan_qr_def)

text \<open>
  The example employee has the number 007 in company c1; the payload names company c2
  and the same number.
\<close>

theorem cross_tenant_scan_forbidden_witness:
  "decode_qr ''EMP_c2_007_5d2e8a10'' = Inr (''c2'', ''007'')
   \<and> ''c2'' \<noteq> ''c1''
   \<and> find (\<lambda>e. e_number e = ''007'' \<and> e_company_id e = ''c1'') (employees example_db)
       = Some example_employee
   \<and> scan_qr ''EMP_c2_007_5d2e8a10'' ''c1'' (at_time 47109000000) ''t1'' example_db
       = (Inl (HTTPException 403 QR_not_your_company), example_db)"
proof -
  have dec: "decode_qr ''EMP_c2_007_5d2e8a10'' = Inr (''c2'', ''007'')"
    by (simp add: decode_qr_def startswith_def)
  have ne: "''c2'' \<noteq> ''c1''"
    by simp
  have "find (\<lambda>e. e_number e = ''007'' \<and> e_company_id e = ''c1'') (employees example_db)
       = Some example_employee"
    by (simp add: example_defs)
  with dec ne cross_tenant_scan_forbidden [OF dec ne] show ?thesis
    by simp
qed

section \<open>What a scan does to the time entries\<close>

text \<open>
  A scan leaves the database as it was, or checks out the open entry it found, or appends
  the entry of a check-in after finding no open entry and no row with the new id.
\<close>

lemma scan_qr_db:
  "snd (scan_qr qr cid clk eid d) = d
   \<or> (\<exists>emp ex. find (is_open emp (today clk)) (time_entries d) = Some ex \<and>
        snd (scan_qr qr cid clk eid d) =
          d\<lparr>time_entries := map (check_out_entry (t_id ex) (action_time clk)) (time_entries d)\<rparr>)
   \<or> (\<exists>emp. find (is_open emp (today clk)) (time_entries d) = None \<and>
        eid \<notin> t_id ` set (time_entries d) \<and>
        snd (scan_qr qr cid clk eid d) =
          d\<lparr>time_entries := time_entries d @
             [check_in_entry eid emp (today clk) (action_time clk)]\<rparr>)"
  unfolding scan_qr_def
  by (auto split: sum.splits prod.splits option.splits)

lemma scan_qr_db_cases:
  obtains (unchanged) "snd (scan_qr qr cid clk eid d) = d"
  | (check_out) emp ex where
      "find (is_open emp (today clk)) (time_entries d) = Some ex"
      "snd (scan_qr qr cid clk eid d) =
         d\<lparr>time_entries := map (check_out_entry (t_id ex) (action_time clk)) (time_entries d)\<rparr>"
  | (check_in) emp where
      "find (is_open emp (today clk)) (time_entries d) = None"
      "eid \<notin> t_id ` set (time_entries d)"
      "snd (scan_qr qr cid clk eid d) =
         d\<lparr>time_entries := time_entries d @
            [check_in_entry eid emp (today clk) (action_time clk)]\<rparr>"
  using scan_qr_db [of qr cid clk eid d] by blast

lemma t_id_check_out_entry: "t_id (check_out_entry i at t) = t_id t"
  by (simp add: check_out_entry_def)

lemma map_t_id_check_out: "map t_id (map (check_out_entry i at) ts) = map t_id ts"
  by (simp add: t_id_check_out_entry)

lemma t_id_check_in_entry: "t_id (check_in_entry eid emp date at) = eid"
  by (simp add: check_in_entry_def)

lemma scan_qr_pk:
  assumes "pk_time_entries d"
  shows "pk_time_entries (snd (scan_qr qr cid clk eid d))"
proof (cases rule: scan_qr_db_cases [of qr cid clk eid d])
  case unchanged
  with assms show ?thesis by simp
next
  case (check_out emp ex)
  with assms show ?thesis
    by (simp add: pk_time_entries_def map_t_id_check_out del: map_map)
next
  case (check_in emp)
  with assms show ?thesis
    by (simp add: pk_time_entries_def t_id_check_in_entry)
qed

lemma find_open_Some:
  "find (is_open emp date) ts = Some ex \<Longrightarrow> ex \<in> set ts \<and> t_status ex = ''working''"
  by (auto simp: find_Some_iff is_open_def)

lemma distinct_ids_eq:
  "distinct (map t_id ts) \<Longrightarrow> x \<in> set ts \<Longrightarrow> y \<in> set ts \<Longrightarrow> t_id x = t_id y \<Longrightarrow> x = y"
  by (meson distinct_map inj_on_def)

lemma scan_qr_completed_unchanged:
  assumes pk: "pk_time_entries d"
    and i: "i < length (time_entries d)"
    and st: "t_status (time_entries d ! i) = ''completed''"
  shows "i < length (time_entries (snd (scan_qr qr cid clk eid d)))
    \<and> time_entries (snd (scan_qr qr cid clk eid d)) ! i = time_entries d ! i"
proof (cases rule: scan_qr_db_cases [of qr cid clk eid d])
  case unchanged
  with i show ?thesis by simp
next
  case (check_out emp ex)
  have ex: "ex \<in> set (time_entries d)" "t_status ex = ''working''"
    using find_open_Some [OF check_out(1)] by simp_all
  have "t_id (time_entries d ! i) \<noteq> t_id ex"
  proof
    assume "t_id (time_entries d ! i) = t_id ex"
    then have "time_entries d ! i = ex"
      using distinct_ids_eq [of "time_entries d" "time_entries d ! i" ex] pk i ex(1)
      by (simp add: pk_time_entries_def)
    with st ex(2) show False by simp
  qed
  then have "check_out_entry (t_id ex) (action_time clk) (time_entries d ! i) = time_entries d ! i"
    by (simp add: check_out_entry_def)
  with i show ?thesis
    by (simp add: check_out(2))
next
  case (check_in emp)
  with i show ?thesis
    by (simp add: nth_append)
qed

lemma run_scans_pk: "pk_time_entries d \<Longrightarrow> pk_time_entries (run_scans rqs d)"
  by (induction rqs arbitrary: d) (simp_all add: scan_qr_pk)

lemma run_scans_completed_unchanged:
  "pk_time_entries d \<Longrightarrow> i < length (time_entries d) \<Longrightarrow>
   t_status (time_entries d ! i) = ''completed'' \<Longrightarrow>
   i < length (time_entries (run_scans rqs d))
     \<and> time_entries (run_scans rqs d) ! i = time_entries d ! i"
proof (induction rqs arbitrary: d)
  case Nil
  then show ?case by simp
next
  case (Cons rq rqs)
  let ?d' = "snd (scan_qr (sq_qr_data rq) (sq_company_id rq) (sq_clock rq) (sq_entry_id rq) d)"
  have step: "i < length (time_entries ?d')" "time_entries ?d' ! i = time_entries d ! i"
    using scan_qr_completed_unchanged [OF Cons.prems] by simp_all
  have "pk_time_entries ?d'"
    using Cons.prems(1) by (rule scan_qr_pk)
  from Cons.IH [OF this step(1)] step(2) Cons.prems(3) show ?case
    by simp
qed

lemma scan_qr_check_in_appends:
  assumes "fst (scan_qr qr cid clk eid d) = Inr r" and "r_action r = ''check_in''"
  shows "\<exists>emp. find (is_open emp (today clk)) (time_entries d) = None
      \<and> eid \<notin> t_id ` set (time_entries d)
      \<and> time_entries (snd (scan_qr qr cid clk eid d)) =
          time_entries d @ [check_in_entry eid emp (today clk) (action_time clk)]"
  using assms unfolding scan_qr_def
  by (auto split: sum.splits prod.splits option.splits if_splits)

section \<open>One open session\<close>

lemma is_open_check_out_entry:
  "is_open E D (check_out_entry i at t) \<Longrightarrow> is_open E D t"
  by (auto simp: is_open_def check_out_entry_def split: if_splits)

lemma length_open_after_check_out:
  "length (filter (is_open E D) (map (check_out_entry i at) ts)) \<le> length (filter (is_open E D) ts)"
proof (induction ts)
  case Nil
  show ?case by simp
next
  case (Cons t ts)
  then show ?case
    using is_open_check_out_entry [of E D i at t] by auto
qed

lemma find_None_filter: "find P xs = None \<Longrightarrow> filter P xs = []"
  by (simp add: find_None_iff filter_empty_conv)

lemma is_open_check_in_entry:
  "is_open E D (check_in_entry eid emp date at) \<longleftrightarrow> E = emp \<and> D = date"
  by (auto simp: is_open_def check_in_entry_def)

lemma one_open_session_iff:
  "one_open_session d \<longleftrightarrow> (\<forall>E D. length (open_entries E D d) \<le> 1)"
proof
  assume h: "one_open_session d"
  show "\<forall>E D. length (open_entries E D d) \<le> 1"
  proof (intro allI)
    fix E D
    show "length (open_entries E D d) \<le> 1"
    proof (cases "open_entries E D d")
      case Nil
      then show ?thesis by simp
    next
      case (Cons t ts)
      then have "t \<in> set (filter (is_open E D) (time_entries d))"
        by (simp add: open_entries_def)
      then have "t \<in> set (time_entries d)" and "t_employee_id t = E" and "t_date t = D"
        by (auto simp: is_open_def)
      with h show ?thesis
        by (auto simp: one_open_session_def list_all_iff)
    qed
  qed
next
  assume "\<forall>E D. length (open_entries E D d) \<le> 1"
  then show "one_open_session d"
    by (simp add: one_open_session_def list_all_iff)
qed

text \<open>
  A scan that runs with no other request between its lookup and its write keeps the
  property, and so does any run of such scans.
\<close>

lemma scan_qr_one_open:
  assumes "one_open_session d"
  shows "one_open_session (snd (scan_qr qr cid clk eid d))"
proof (cases rule: scan_qr_db_cases [of qr cid clk eid d])
  case unchanged
  with assms show ?thesis by simp
next
  case (check_out emp ex)
  have "length (open_entries E D (snd (scan_qr qr cid clk eid d))) \<le> 1" for E D
  proof -
    have "length (open_entries E D (snd (scan_qr qr cid clk eid d)))
        \<le> length (open_entries E D d)"
      using length_open_after_check_out [of E D "t_id ex" "action_time clk" "time_entries d"]
      by (simp add: check_out(2) open_entries_def)
    also have "\<dots> \<le> 1"
      using assms by (simp add: one_open_session_iff)
    finally show ?thesis .
  qed
  then show ?thesis by (simp add: one_open_session_iff)
next
  case (check_in emp)
  have none: "open_entries emp (today clk) d = []"
    using check_in(1) by (simp add: open_entries_def find_None_filter)
  have "length (open_entries E D (snd (scan_qr qr cid clk eid d))) \<le> 1" for E D
  proof (cases "E = emp \<and> D = today clk")
    case True
    then show ?thesis
      using none by (simp add: check_in(3) open_entries_def)
  next
    case False
    then have "open_entries E D (snd (scan_qr qr cid clk eid d)) = open_entries E D d"
      by (auto simp: check_in(3) open_entries_def is_open_check_in_entry)
    then show ?thesis
      using assms by (simp add: one_open_session_iff)
  qed
  then show ?thesis by (simp add: one_open_session_iff)
qed

lemma run_scans_one_open: "one_open_session d \<Longrightarrow> one_open_session (run_scans rqs d)"
  by (induction rqs arbitrary: d) (simp_all add: scan_qr_one_open)

text \<open>The two parts run one after the other on one database are the scan.\<close>

lemma scan_qr_lookup_write:
  "scan_qr qr_data company_id clk entry_id d =
     (case scan_lookup qr_data company_id clk d of
        Inl err \<Rightarrow> (Inl err, d)
      | Inr found \<Rightarrow> scan_write clk entry_id found d)"
  by (simp add: scan_qr_def scan_lookup_def scan_write_def
      split: sum.splits prod.splits option.splits)

text \<open>
  C1. Two scans of the same payload that overlap: both look the open entry up in the
  example database, where the employee has none, before either writes. Each then inserts
  its check-in, and the employee has two entries with status working for the same date.
\<close>

theorem overlapping_scans_two_open_sessions:
  "one_open_session example_db
   \<and> scan_lookup example_qr ''c1'' (at_time 47109000000) example_db
       = Inr (example_employee, None)
   \<and> scan_lookup example_qr ''c1'' (at_time 47109100000) example_db
       = Inr (example_employee, None)
   \<and> scan_write (at_time 47109000000) ''t1'' (example_employee, None) example_db
       = (Inr \<lparr>r_action = ''check_in'', r_employee = ''James Bond'', r_time = ''13:05:09'',
               r_cooldown_seconds = 5\<rparr>,
          example_db_working)
   \<and> scan_write (at_time 47109100000) ''t2'' (example_employee, None) example_db_working
       = (Inr \<lparr>r_action = ''check_in'', r_employee = ''James Bond'', r_time = ''13:05:09'',
               r_cooldown_seconds = 5\<rparr>,
          example_db_two_open)
   \<and> length (open_entries ''e1'' ''2024-05-01'' example_db_two_open) = 2
   \<and> \<not> one_open_session example_db_two_open"
  by (simp add: scan_lookup_def scan_write_def one_open_session_def open_entries_def
      scan_defs example_defs)

section \<open>Completed entries\<close>

text \<open>
  C6. With the primary key of the time entries in force, an entry with status completed
  stays where it is and as it is through any run of scans. A scan that reports a check-in
  found no open entry and has appended one new row, under an id no stored row has, to the
  entries as they were.
\<close>

theorem completed_entries_immutable:
  "(pk_time_entries d \<and> i < length (time_entries d) \<and>
      t_status (time_entries d ! i) = ''completed'' \<longrightarrow>
      i < length (time_entries (run_scans rqs d)) \<and>
      time_entries (run_scans rqs d) ! i = time_entries d ! i)
   \<and> (fst (scan_qr qr_data company_id clk entry_id d) = Inr r \<and> r_action r = ''check_in'' \<longrightarrow>
      (\<exists>employee_id.
         find (is_open employee_id (today clk)) (time_entries d) = None \<and>
         entry_id \<notin> t_id ` set (time_entries d) \<and>
         time_entries (snd (scan_qr qr_data company_id clk entry_id d)) =
           time_entries d @
             [check_in_entry entry_id employee_id (today clk) (action_time clk)]))"
  using run_scans_completed_unchanged [of d i rqs]
    scan_qr_check_in_appends [of qr_data company_id clk entry_id d r]
  by blast

text \<open>
  After the completed session of the example, a check-in at 13:05:16 and a check-out at
  13:05:22 leave the completed entry untouched; the check-in appends the entry t2.
\<close>

theorem completed_entries_immutable_witness:
  "pk_time_entries example_db_completed
   \<and> t_status (time_entries example_db_completed ! 0) = ''completed''
   \<and> length (time_entries (run_scans
         [example_request 47116000000 ''t2'', example_request 47122000000 ''t3'']
         example_db_completed)) = 2
   \<and> time_entries (run_scans
         [example_request 47116000000 ''t2'', example_request 47122000000 ''t3'']
         example_db_completed) ! 0 = time_entries example_db_completed ! 0
   \<and> r_action (projr (fst (scan_qr example_qr ''c1'' (at_time 47116000000) ''t2''
         example_db_completed))) = ''check_in''
   \<and> time_entries (snd (scan_qr example_qr ''c1'' (at_time 47116000000) ''t2''
         example_db_completed))
       = time_entries example_db_completed @
           [check_in_entry ''t2'' ''e1'' ''2024-05-01'' 47116000000]"
proof -
  let ?rqs = "[example_request 47116000000 ''t2'', example_request 47122000000 ''t3'']"
  have pk: "pk_time_entries example_db_completed"
    by (simp add: pk_time_entries_def check_out_entry_def check_in_entry_def example_defs)
  have i: "0 < length (time_entries example_db_completed)"
    by (simp add: example_defs)
  have st: "t_status (time_entries example_db_completed ! 0) = ''completed''"
    by (simp add: check_out_entry_def check_in_entry_def example_defs)
  have len: "length (time_entries (run_scans ?rqs example_db_completed)) = 2"
    by (simp add: scan_defs example_defs)
  have scan: "scan_qr example_qr ''c1'' (at_time 47116000000) ''t2'' example_db_completed
       = (Inr \<lparr>r_action = ''check_in'', r_employee = ''James Bond'', r_time = ''13:05:16'',
               r_cooldown_seconds = 5\<rparr>,
          example_db_completed\<lparr>time_entries := time_entries example_db_completed @
             [check_in_entry ''t2'' ''e1'' ''2024-05-01'' 47116000000]\<rparr>)"
    by (simp add: scan_defs example_defs)
  from completed_entries_immutable [of example_db_completed 0 ?rqs example_qr "''c1''"
      "at_time 47116000000" "''t2''"
      "\<lparr>r_action = ''check_in'', r_employee = ''James Bond'', r_time = ''13:05:16'',
        r_cooldown_seconds = 5\<rparr>"] pk i st
  have "time_entries (run_scans ?rqs example_db_completed) ! 0
      = time_entries example_db_completed ! 0"
    by blast
  with pk st len scan show ?thesis
    by simp
qed

section \<open>Check-in and check-out\<close>

lemma check_out_entry_fun:
  "check_out_entry i at =
     (\<lambda>t. if t_id t = i
          then t\<lparr>t_check_out := Some at, t_status := ''completed'', t_last_scan_time := Some at\<rparr>
          else t)"
  by (simp add: fun_eq_iff check_out_entry_def)

lemma map_only_one:
  assumes "i < length xs" and "\<forall>j < length xs. j \<noteq> i \<longrightarrow> f (xs ! j) = xs ! j"
  shows "map f xs = xs[i := f (xs ! i)]"
  using assms by (intro nth_equalityI) (auto simp: nth_list_update)

lemma check_out_only_one:
  assumes pk: "distinct (map t_id ts)" and i: "i < length ts"
  shows "map (check_out_entry (t_id (ts ! i)) at) ts = ts[i := check_out_entry (t_id (ts ! i)) at (ts ! i)]"
proof (rule map_only_one [OF i], intro allI impI)
  fix j assume j: "j < length ts" "j \<noteq> i"
  have "t_id (ts ! j) \<noteq> t_id (ts ! i)"
    using pk i j by (simp add: distinct_conv_nth)
  then show "check_out_entry (t_id (ts ! i)) at (ts ! j) = ts ! j"
    by (simp add: check_out_entry_def)
qed

lemma scan_qr_check_in:
  assumes "decode_qr qr_data = Inr (company_id, employee_number)"
    and "find (\<lambda>e. e_number e = employee_number \<and> e_company_id e = company_id) (employees d)
           = Some employee"
    and "find (is_open (e_id employee) (today clk)) (time_entries d) = None"
    and "entry_id \<notin> t_id ` set (time_entries d)"
  shows "scan_qr qr_data company_id clk entry_id d =
       (Inr \<lparr>r_action = ''check_in'',
             r_employee = e_name employee @ '' '' @ e_surname employee,
             r_time = strftime_HMS (action_time clk), r_cooldown_seconds = 5\<rparr>,
        d\<lparr>time_entries := time_entries d @
           [\<lparr>t_id = entry_id, t_employee_id = e_id employee,
             t_check_in = Some (action_time clk), t_check_out = None, t_date = today clk,
             t_status = ''working'', t_last_scan_time = Some (action_time clk)\<rparr>]\<rparr>)"
  using assms by (simp add: scan_qr_def check_in_entry_def COOLDOWN_SECONDS_def)

lemma cooldown_check_None:
  "cooldown_check now ex = None \<longleftrightarrow>
     (\<forall>last_scan. t_last_scan_time ex = Some last_scan \<longrightarrow> 5000000 \<le> now - last_scan)"
  by (auto simp: cooldown_check_def time_diff_def COOLDOWN_SECONDS_def split: option.splits)

lemma scan_qr_check_out:
  assumes "decode_qr qr_data = Inr (company_id, employee_number)"
    and "find (\<lambda>e. e_number e = employee_number \<and> e_company_id e = company_id) (employees d)
           = Some employee"
    and "find (is_open (e_id employee) (today clk)) (time_entries d) = Some existing_entry"
    and "cooldown_check (current_time clk) existing_entry = None"
  shows "scan_qr qr_data company_id clk entry_id d =
       (Inr \<lparr>r_action = ''check_out'',
             r_employee = e_name employee @ '' '' @ e_surname employee,
             r_time = strftime_HMS (action_time clk), r_cooldown_seconds = 5\<rparr>,
        d\<lparr>time_entries :=
           map (\<lambda>t. if t_id t = t_id existing_entry
                    then t\<lparr>t_check_out := Some (action_time clk), t_status := ''completed'',
                           t_last_scan_time := Some (action_time clk)\<rparr>
                    else t) (time_entries d)\<rparr>)"
  using assms by (simp add: scan_qr_def check_out_entry_fun COOLDOWN_SECONDS_def)

lemma find_Some_index:
  "find P xs = Some x \<Longrightarrow> \<exists>i < length xs. xs ! i = x"
  by (auto simp: find_Some_iff)

lemma check_out_in_place:
  assumes "pk_time_entries d"
    and "find (is_open emp date) (time_entries d) = Some existing_entry"
  shows "\<exists>i < length (time_entries d). time_entries d ! i = existing_entry \<and>
      map (\<lambda>t. if t_id t = t_id existing_entry
                    then t\<lparr>t_check_out := Some at, t_status := ''completed'',
                           t_last_scan_time := Some at\<rparr>
                    else t) (time_entries d)
      = (time_entries d)[i := existing_entry\<lparr>t_check_out := Some at, t_status := ''completed'',
                           t_last_scan_time := Some at\<rparr>]"
proof -
  obtain i where i: "i < length (time_entries d)" "time_entries d ! i = existing_entry"
    using find_Some_index [OF assms(2)] by blast
  have "map (check_out_entry (t_id existing_entry) at) (time_entries d)
      = (time_entries d)[i := check_out_entry (t_id existing_entry) at existing_entry]"
    using check_out_only_one [of "time_entries d" i at] assms(1) i
    by (simp add: pk_time_entries_def)
  then show ?thesis
    using i by (auto simp: check_out_entry_fun)
qed

text \<open>
  C5. For a payload of the caller's company that names a stored employee: when the
  employee has no open entry today and the fresh id is new, the scan appends the entry
  (check-in time, date, status working, last scan time) and reports a check-in with the
  employee's name and the time; when an open entry is found whose cooldown has passed (or
  that has no last scan time), the scan sets check-out time, status completed and last scan
  time on the rows with that entry's id and reports a check-out. Under the primary key
  that is the found entry alone, changed in place.
\<close>

theorem scan_postconditions:
  assumes "decode_qr qr_data = Inr (company_id, employee_number)"
    and "find (\<lambda>e. e_number e = employee_number \<and> e_company_id e = company_id) (employees d)
           = Some employee"
  shows "(find (is_open (e_id employee) (today clk)) (time_entries d) = None \<and>
          entry_id \<notin> t_id ` set (time_entries d) \<longrightarrow>
          scan_qr qr_data company_id clk entry_id d =
            (Inr \<lparr>r_action = ''check_in'',
                  r_employee = e_name employee @ '' '' @ e_surname employee,
                  r_time = strftime_HMS (action_time clk), r_cooldown_seconds = 5\<rparr>,
             d\<lparr>time_entries := time_entries d @
                [\<lparr>t_id = entry_id, t_employee_id = e_id employee,
                  t_check_in = Some (action_time clk), t_check_out = None,
                  t_date = today clk, t_status = ''working'',
                  t_last_scan_time = Some (action_time clk)\<rparr>]\<rparr>))
       \<and> (find (is_open (e_id employee) (today clk)) (time_entries d) = Some existing_entry \<and>
          (\<forall>last_scan. t_last_scan_time existing_entry = Some last_scan \<longrightarrow>
             5000000 \<le> current_time clk - last_scan) \<longrightarrow>
          scan_qr qr_data company_id clk entry_id d =
            (Inr \<lparr>r_action = ''check_out'',
                  r_employee = e_name employee @ '' '' @ e_surname employee,
                  r_time = strftime_HMS (action_time clk), r_cooldown_seconds = 5\<rparr>,
             d\<lparr>time_entries :=
                map (\<lambda>t. if t_id t = t_id existing_entry
                         then t\<lparr>t_check_out := Some (action_time clk),
                                t_status := ''completed'',
                                t_last_scan_time := Some (action_time clk)\<rparr>
                         else t) (time_entries d)\<rparr>)
          \<and> (pk_time_entries d \<longrightarrow>
              (\<exists>i < length (time_entries d). time_entries d ! i = existing_entry \<and>
                 time_entries (snd (scan_qr qr_data company_id clk entry_id d)) =
                   (time_entries d)[i := existing_entry\<lparr>t_check_out := Some (action_time clk),
                       t_status := ''completed'',
                       t_last_scan_time := Some (action_time clk)\<rparr>])))"
proof (intro conjI impI)
  assume "find (is_open (e_id employee) (today clk)) (time_entries d) = None \<and>
          entry_id \<notin> t_id ` set (time_entries d)"
  then show "scan_qr qr_data company_id clk entry_id d =
            (Inr \<lparr>r_action = ''check_in'',
                  r_employee = e_name employee @ '' '' @ e_surname employee,
                  r_time = strftime_HMS (action_time clk), r_cooldown_seconds = 5\<rparr>,
             d\<lparr>time_entries := time_entries d @
                [\<lparr>t_id = entry_id, t_employee_id = e_id employee,
                  t_check_in = Some (action_time clk), t_check_out = None,
                  t_date = today clk, t_status = ''working'',
                  t_last_scan_time = Some (action_time clk)\<rparr>]\<rparr>)"
    using scan_qr_check_in [OF assms] by simp
next
  assume a: "find (is_open (e_id employee) (today clk)) (time_entries d) = Some existing_entry \<and>
          (\<forall>last_scan. t_last_scan_time existing_entry = Some last_scan \<longrightarrow>
             5000000 \<le> current_time clk - last_scan)"
  then have cd: "cooldown_check (current_time clk) existing_entry = None"
    by (simp add: cooldown_check_None)
  from a have found:
    "find (is_open (e_id employee) (today clk)) (time_entries d) = Some existing_entry"
    by simp
  show out: "scan_qr qr_data company_id clk entry_id d =
            (Inr \<lparr>r_action = ''check_out'',
                  r_employee = e_name employee @ '' '' @ e_surname employee,
                  r_time = strftime_HMS (action_time clk), r_cooldown_seconds = 5\<rparr>,
             d\<lparr>time_entries :=
                map (\<lambda>t. if t_id t = t_id existing_entry
                         then t\<lparr>t_check_out := Some (action_time clk),
                                t_status := ''completed'',
                                t_last_scan_time := Some (action_time clk)\<rparr>
                         else t) (time_entries d)\<rparr>)"
    by (rule scan_qr_check_out [OF assms found cd])
  assume pk: "pk_time_entries d"
  show "\<exists>i < length (time_entries d). time_entries d ! i = existing_entry \<and>
          time_entries (snd (scan_qr qr_data company_id clk entry_id d)) =
            (time_entries d)[i := existing_entry\<lparr>t_check_out := Some (action_time clk),
                t_status := ''completed'', t_last_scan_time := Some (action_time clk)\<rparr>]"
    using check_out_in_place [OF pk found, of "action_time clk"] by (simp add: out)
qed

text \<open>
  The first scan of the example employee checks in at 13:05:09; the scan six seconds
  later checks the same entry out.
\<close>

theorem scan_postconditions_witness:
  "scan_qr example_qr ''c1'' (at_time 47109000000) ''t1'' example_db =
     (Inr \<lparr>r_action = ''check_in'', r_employee = ''James Bond'', r_time = ''13:05:09'',
           r_cooldown_seconds = 5\<rparr>,
      example_db_working)
   \<and> scan_qr example_qr ''c1'' (at_time 47115000000) ''t2'' example_db_working =
     (Inr \<lparr>r_action = ''check_out'', r_employee = ''James Bond'', r_time = ''13:05:15'',
           r_cooldown_seconds = 5\<rparr>,
      example_db_completed)"
proof -
  let ?e = "check_in_entry ''t1'' ''e1'' ''2024-05-01'' 47109000000"
  have dec: "decode_qr example_qr = Inr (''c1'', ''007'')"
    by (simp add: decode_qr_def startswith_def example_qr_def)
  have emp0: "find (\<lambda>e. e_number e = ''007'' \<and> e_company_id e = ''c1'') (employees example_db)
      = Some example_employee"
    by (simp add: example_defs)
  have emp1: "find (\<lambda>e. e_number e = ''007'' \<and> e_company_id e = ''c1'')
      (employees example_db_working) = Some example_employee"
    by (simp add: example_defs)
  have none: "find (is_open (e_id example_employee) (today (at_time 47109000000)))
        (time_entries example_db) = None
      \<and> ''t1'' \<notin> t_id ` set (time_entries example_db)"
    by (simp add: example_defs)
  have some: "find (is_open (e_id example_employee) (today (at_time 47115000000)))
        (time_entries example_db_working) = Some ?e
      \<and> (\<forall>last_scan. t_last_scan_time ?e = Some last_scan \<longrightarrow>
           5000000 \<le> current_time (at_time 47115000000) - last_scan)"
    by (simp add: example_defs is_open_def check_in_entry_def)
  have r1: "scan_qr example_qr ''c1'' (at_time 47109000000) ''t1'' example_db =
     (Inr \<lparr>r_action = ''check_in'', r_employee = ''James Bond'', r_time = ''13:05:09'',
           r_cooldown_seconds = 5\<rparr>,
      example_db_working)"
    using scan_postconditions [OF dec emp0, of "at_time 47109000000" "''t1''" ?e] none
    by (simp add: example_defs check_in_entry_def strftime_HMS_def two_digits_def)
  have r2: "scan_qr example_qr ''c1'' (at_time 47115000000) ''t2'' example_db_working =
     (Inr \<lparr>r_action = ''check_out'', r_employee = ''James Bond'', r_time = ''13:05:15'',
           r_cooldown_seconds = 5\<rparr>,
      example_db_completed)"
    using scan_postconditions [OF dec emp1, of "at_time 47115000000" "''t2''" ?e] some
    by (simp add: example_defs check_in_entry_def check_out_entry_def strftime_HMS_def
        two_digits_def)
  from r1 r2 show ?thesis
    by simp
qed

section \<open>Cooldown\<close>

lemma scan_qr_cooldown:
  assumes "decode_qr qr_data = Inr (company_id, employee_number)"
    and "find (\<lambda>e. e_number e = employee_number \<and> e_company_id e = company_id) (employees d)
           = Some employee"
    and "find (is_open (e_id employee) (today clk)) (time_entries d) = Some existing_entry"
    and "t_last_scan_time existing_entry = Some last_scan"
    and "current_time clk - last_scan < 5000000"
  shows "scan_qr qr_data company_id clk entry_id d =
     (Inl (HTTPException 429 (Wait_seconds (remaining_seconds (current_time clk) last_scan))), d)"
  using assms
  by (simp add: scan_qr_def cooldown_check_def time_diff_def COOLDOWN_SECONDS_def)

text \<open>
  The number of seconds in the refusal, as the code computes it: two and a half seconds
  after the last scan it is 2; at 4.999999 seconds it is 0 while the scan is still
  refused; for a last scan time of 2600-01-01T00:00:00.999999 and the clock at
  2024-05-01T13:05:09 it is 18166330497, one more than the whole seconds of the exact
  difference, because the elapsed seconds are not a double.
\<close>

lemma remaining_seconds_examples:
  "remaining_seconds 47111500000 47109000000 = 2"
  "remaining_seconds 47113999999 47109000000 = 0"
  "remaining_seconds 0 18166330491999999 = 18166330497"
  by code_simp+

text \<open>
  C2. The cooldown test is made only on an open entry. The example employee checks in at
  13:05:09 and out at 13:05:15; the scan at 13:05:16, one second after that employee's
  last scan, is accepted as a new check-in and adds a row.
\<close>

theorem cooldown_skipped_after_check_out:
  "run_scans [example_request 47109000000 ''t1'', example_request 47115000000 ''t2'']
       example_db = example_db_completed
   \<and> map t_last_scan_time (time_entries example_db_completed) = [Some 47115000000]
   \<and> time_diff 47116000000 47115000000 < COOLDOWN_SECONDS * 1000000
   \<and> scan_qr example_qr ''c1'' (at_time 47116000000) ''t3'' example_db_completed
       = (Inr \<lparr>r_action = ''check_in'', r_employee = ''James Bond'', r_time = ''13:05:16'',
               r_cooldown_seconds = 5\<rparr>,
          example_db_completed\<lparr>time_entries := time_entries example_db_completed @
             [check_in_entry ''t3'' ''e1'' ''2024-05-01'' 47116000000]\<rparr>)
   \<and> snd (scan_qr example_qr ''c1'' (at_time 47116000000) ''t3'' example_db_completed)
       \<noteq> example_db_completed"
  by (simp add: scan_defs example_defs)

section \<open>Creating a company: conflicts and atomicity\<close>

lemma find_None_list_ex: "find P xs = None \<longleftrightarrow> \<not> list_ex P xs"
  by (auto simp: find_None_iff list_ex_iff)

lemma find_Some_list_ex: "list_ex P xs \<Longrightarrow> \<exists>x. find P xs = Some x"
  by (cases "find P xs") (simp_all add: find_None_list_ex)

lemma register_company_name_taken:
  "company_name_taken (reg_company_name rd) d \<Longrightarrow>
   register_company rd fv d = (Inl (HTTPException 400 Company_name_exists), d)"
  using find_Some_list_ex [of "\<lambda>c. c_name c = reg_company_name rd" "companies d"]
  by (auto simp: register_company_def company_name_taken_def)

lemma register_company_username_taken:
  "\<not> company_name_taken (reg_company_name rd) d \<Longrightarrow>
   username_taken (reg_admin_username rd) d \<Longrightarrow>
   register_company rd fv d = (Inl (HTTPException 400 Username_exists), d)"
  using find_Some_list_ex [of "\<lambda>u. u_username u = reg_admin_username rd" "users d"]
  by (auto simp: register_company_def company_name_taken_def username_taken_def
      find_None_list_ex [symmetric])

lemma register_company_creates:
  "\<not> company_name_taken (reg_company_name rd) d \<Longrightarrow>
   \<not> username_taken (reg_admin_username rd) d \<Longrightarrow>
   f_company_id fv \<notin> c_id ` set (companies d) \<Longrightarrow>
   f_admin_user_id fv \<notin> u_id ` set (users d) \<Longrightarrow>
   register_company rd fv d =
     (Inr \<lparr>rr_id = f_admin_user_id fv, rr_username = reg_admin_username rd,
           rr_email = reg_admin_email rd, rr_role = ''admin'', rr_company_id = f_company_id fv\<rparr>,
      with_company (new_company (reg_company_name rd) ''system'' fv)
        (new_admin (reg_admin_username rd) (reg_admin_email rd) fv) d)"
  by (simp add: register_company_def company_name_taken_def username_taken_def
      find_None_list_ex [symmetric] with_company_def)

lemma register_company_atomic:
  "snd (register_company rd fv d) = d
   \<or> snd (register_company rd fv d) =
       with_company (new_company (reg_company_name rd) ''system'' fv)
        (new_admin (reg_admin_username rd) (reg_admin_email rd) fv) d"
  by (simp add: register_company_def with_company_def split: option.splits)

lemma is_admin_of_new_admin: "is_admin_of (c_id (new_company name owner_id fv)) (new_admin username email fv)"
  by (simp add: is_admin_of_def new_company_def new_admin_def)

lemma with_company_has_admin:
  "every_company_has_admin d \<Longrightarrow>
   every_company_has_admin
     (with_company (new_company name owner_id fv) (new_admin username email fv) d)"
  using is_admin_of_new_admin [of name owner_id fv username email]
  by (auto simp: every_company_has_admin_def with_company_def list_all_iff list_ex_iff)

lemma register_company_has_admin:
  "every_company_has_admin d \<Longrightarrow> every_company_has_admin (snd (register_company rd fv d))"
  using register_company_atomic [of rd fv d] with_company_has_admin
  by auto

lemma filter_key_distinct:
  "distinct (map f xs) \<Longrightarrow> filter (\<lambda>x. f x = k) xs = (case find (\<lambda>x. f x = k) xs of None \<Rightarrow> [] | Some x \<Rightarrow> [x])"
proof (induction xs)
  case Nil
  show ?case by simp
next
  case (Cons x xs)
  show ?case
  proof (cases "f x = k")
    case True
    have "f x \<notin> f ` set xs"
      using Cons.prems by simp
    with True have "\<forall>y \<in> set xs. f y \<noteq> k"
      by (metis imageI)
    then have "filter (\<lambda>x. f x = k) xs = []" by (simp add: filter_empty_conv)
    with True show ?thesis by simp
  next
    case False
    with Cons show ?thesis by simp
  qed
qed

lemma scalar_one_or_none_key:
  "distinct (map f xs) \<Longrightarrow>
   scalar_one_or_none (filter (\<lambda>x. f x = k) xs) = Inr (find (\<lambda>x. f x = k) xs)"
  by (simp add: filter_key_distinct scalar_one_or_none_def split: option.splits)

lemma create_company_name_taken:
  "unique_company_names d \<Longrightarrow> company_name_taken (cc_name cd) d \<Longrightarrow>
   create_company cd ow fv d = (Inl (HTTPException 400 Company_name_exists), d)"
  using find_Some_list_ex [of "\<lambda>c. c_name c = cc_name cd" "companies d"]
  by (auto simp: create_company_def company_name_taken_def unique_company_names_def
      scalar_one_or_none_key)

lemma create_company_username_taken:
  "unique_company_names d \<Longrightarrow> unique_usernames d \<Longrightarrow>
   \<not> company_name_taken (cc_name cd) d \<Longrightarrow> username_taken (cc_admin_username cd) d \<Longrightarrow>
   create_company cd ow fv d = (Inl (HTTPException 400 Username_exists), d)"
  using find_Some_list_ex [of "\<lambda>u. u_username u = cc_admin_username cd" "users d"]
  by (auto simp: create_company_def company_name_taken_def username_taken_def
      unique_company_names_def unique_usernames_def scalar_one_or_none_key
      find_None_list_ex [symmetric])

lemma create_company_creates:
  "unique_company_names d \<Longrightarrow> unique_usernames d \<Longrightarrow>
   \<not> company_name_taken (cc_name cd) d \<Longrightarrow>
   \<not> username_taken (cc_admin_username cd) d \<Longrightarrow>
   f_company_id fv \<notin> c_id ` set (companies d) \<Longrightarrow>
   f_admin_user_id fv \<notin> u_id ` set (users d) \<Longrightarrow>
   create_company cd ow fv d =
     (Inr \<lparr>cr_company_id = f_company_id fv, cr_company_name = cc_name cd,
           cr_company_owner_id = o_id ow, cr_company_created_at = f_company_created_at fv,
           cr_admin_id = f_admin_user_id fv, cr_admin_username = cc_admin_username cd,
           cr_admin_email = cc_admin_email cd, cr_admin_role = ''admin''\<rparr>,
      with_company (new_company (cc_name cd) (o_id ow) fv)
        (new_admin (cc_admin_username cd) (cc_admin_email cd) fv) d)"
  by (simp add: create_company_def company_name_taken_def username_taken_def
      unique_company_names_def unique_usernames_def scalar_one_or_none_key
      find_None_list_ex [symmetric] with_company_def)

lemma create_company_atomic:
  "snd (create_company cd ow fv d) = d
   \<or> snd (create_company cd ow fv d) =
       with_company (new_company (cc_name cd) (o_id ow) fv)
        (new_admin (cc_admin_username cd) (cc_admin_email cd) fv) d"
  by (simp add: create_company_def with_company_def split: option.splits sum.splits)

lemma create_company_has_admin:
  "every_company_has_admin d \<Longrightarrow> every_company_has_admin (snd (create_company cd ow fv d))"
  using create_company_atomic [of cd ow fv d] with_company_has_admin
  by auto

text \<open>
  Without any assumption on the stored names, a taken name or username makes
  \<^verbatim>\<open>create_company\<close> fail and write nothing.
\<close>

lemma create_company_taken_no_rows:
  "company_name_taken (cc_name cd) d \<or> username_taken (cc_admin_username cd) d \<Longrightarrow>
   (\<exists>e. fst (create_company cd ow fv d) = Inl e) \<and> snd (create_company cd ow fv d) = d"
  by (auto simp: create_company_def company_name_taken_def username_taken_def
      scalar_one_or_none_def list_ex_iff filter_empty_conv split: list.splits option.splits sum.splits)

text \<open>Both creations keep company names and usernames unique.\<close>

lemma with_company_unique_names:
  "unique_company_names d \<Longrightarrow> \<not> company_name_taken (c_name c) d \<Longrightarrow>
   unique_company_names (with_company c u d)"
  by (auto simp: unique_company_names_def company_name_taken_def with_company_def list_ex_iff)

lemma with_company_unique_usernames:
  "unique_usernames d \<Longrightarrow> \<not> username_taken (u_username u) d \<Longrightarrow>
   unique_usernames (with_company c u d)"
  by (auto simp: unique_usernames_def username_taken_def with_company_def list_ex_iff)

lemma create_company_keeps_unique:
  assumes "unique_company_names d" and "unique_usernames d"
  shows "unique_company_names (snd (create_company cd ow fv d))
       \<and> unique_usernames (snd (create_company cd ow fv d))"
proof (cases "snd (create_company cd ow fv d) = d")
  case True
  with assms show ?thesis by simp
next
  case False
  then have taken: "\<not> company_name_taken (cc_name cd) d" "\<not> username_taken (cc_admin_username cd) d"
    using create_company_taken_no_rows [of cd d ow fv] by blast+
  from False have "snd (create_company cd ow fv d) =
       with_company (new_company (cc_name cd) (o_id ow) fv)
        (new_admin (cc_admin_username cd) (cc_admin_email cd) fv) d"
    using create_company_atomic [of cd ow fv d] by simp
  then show ?thesis
    using assms taken
      with_company_unique_names [of d "new_company (cc_name cd) (o_id ow) fv"]
      with_company_unique_usernames [of d "new_admin (cc_admin_username cd) (cc_admin_email cd) fv"]
    by (simp add: new_company_def new_admin_def)
qed

lemma register_company_taken_no_rows:
  "company_name_taken (reg_company_name rd) d \<or> username_taken (reg_admin_username rd) d \<Longrightarrow>
   (\<exists>dt. fst (register_company rd fv d) = Inl (HTTPException 400 dt))
     \<and> snd (register_company rd fv d) = d"
  using register_company_name_taken [of rd d fv] register_company_username_taken [of rd d fv]
  by (cases "company_name_taken (reg_company_name rd) d") auto

lemma register_company_keeps_unique:
  assumes "unique_company_names d" and "unique_usernames d"
  shows "unique_company_names (snd (register_company rd fv d))
       \<and> unique_usernames (snd (register_company rd fv d))"
proof (cases "snd (register_company rd fv d) = d")
  case True
  with assms show ?thesis by simp
next
  case False
  then have taken: "\<not> company_name_taken (reg_company_name rd) d"
      "\<not> username_taken (reg_admin_username rd) d"
    using register_company_taken_no_rows [of rd d fv] by blast+
  from False have "snd (register_company rd fv d) =
       with_company (new_company (reg_company_name rd) ''system'' fv)
        (new_admin (reg_admin_username rd) (reg_admin_email rd) fv) d"
    using register_company_atomic [of rd fv d] by simp
  then show ?thesis
    using assms taken
      with_company_unique_names [of d "new_company (reg_company_name rd) ''system'' fv"]
      with_company_unique_usernames [of d "new_admin (reg_admin_username rd) (reg_admin_email rd) fv"]
    by (simp add: new_company_def new_admin_def)
qed

text \<open>
  C8. Self-registration and owner-driven creation alike: a taken company name, or a free
  name with a taken admin username, is refused with the duplicate error (status 400) and
  the database is left as it was; with both free and the two fresh ids unused, the company
  and its admin user are appended together. Whatever the outcome, the database afterwards
  is the old one or the old one with both rows, so a database in which every company has
  an admin stays so. For \<^verbatim>\<open>create_company\<close> the named errors are stated for stored names
  and usernames without repetition, which both creations preserve; without that, a taken
  name or username still gives an error and no row.
\<close>

theorem company_creation:
  "(company_name_taken (reg_company_name rd) d \<longrightarrow>
      register_company rd fv d = (Inl (HTTPException 400 Company_name_exists), d))
   \<and> (\<not> company_name_taken (reg_company_name rd) d \<and>
      username_taken (reg_admin_username rd) d \<longrightarrow>
      register_company rd fv d = (Inl (HTTPException 400 Username_exists), d))
   \<and> (\<not> company_name_taken (reg_company_name rd) d \<and>
      \<not> username_taken (reg_admin_username rd) d \<and>
      f_company_id fv \<notin> c_id ` set (companies d) \<and>
      f_admin_user_id fv \<notin> u_id ` set (users d) \<longrightarrow>
      register_company rd fv d =
        (Inr \<lparr>rr_id = f_admin_user_id fv, rr_username = reg_admin_username rd,
              rr_email = reg_admin_email rd, rr_role = ''admin'',
              rr_company_id = f_company_id fv\<rparr>,
         with_company (new_company (reg_company_name rd) ''system'' fv)
           (new_admin (reg_admin_username rd) (reg_admin_email rd) fv) d))
   \<and> (snd (register_company rd fv d) = d \<or>
      snd (register_company rd fv d) =
        with_company (new_company (reg_company_name rd) ''system'' fv)
          (new_admin (reg_admin_username rd) (reg_admin_email rd) fv) d)
   \<and> (every_company_has_admin d \<longrightarrow>
      every_company_has_admin (snd (register_company rd fv d)))
   \<and> (company_name_taken (cc_name cd) d \<or> username_taken (cc_admin_username cd) d \<longrightarrow>
      (\<exists>e. fst (create_company cd ow fv d) = Inl e) \<and> snd (create_company cd ow fv d) = d)
   \<and> (unique_company_names d \<and> company_name_taken (cc_name cd) d \<longrightarrow>
      create_company cd ow fv d = (Inl (HTTPException 400 Company_name_exists), d))
   \<and> (unique_company_names d \<and> unique_usernames d \<and>
      \<not> company_name_taken (cc_name cd) d \<and> username_taken (cc_admin_username cd) d \<longrightarrow>
      create_company cd ow fv d = (Inl (HTTPException 400 Username_exists), d))
   \<and> (unique_company_names d \<and> unique_usernames d \<and>
      \<not> company_name_taken (cc_name cd) d \<and> \<not> username_taken (cc_admin_username cd) d \<and>
      f_company_id fv \<notin> c_id ` set (companies d) \<and>
      f_admin_user_id fv \<notin> u_id ` set (users d) \<longrightarrow>
      create_company cd ow fv d =
        (Inr \<lparr>cr_company_id = f_company_id fv, cr_company_name = cc_name cd,
              cr_company_owner_id = o_id ow,
              cr_company_created_at = f_company_created_at fv,
              cr_admin_id = f_admin_user_id fv, cr_admin_username = cc_admin_username cd,
              cr_admin_email = cc_admin_email cd, cr_admin_role = ''admin''\<rparr>,
         with_company (new_company (cc_name cd) (o_id ow) fv)
           (new_admin (cc_admin_username cd) (cc_admin_email cd) fv) d))
   \<and> (snd (create_company cd ow fv d) = d \<or>
      snd (create_company cd ow fv d) =
        with_company (new_company (cc_name cd) (o_id ow) fv)
          (new_admin (cc_admin_username cd) (cc_admin_email cd) fv) d)
   \<and> (every_company_has_admin d \<longrightarrow>
      every_company_has_admin (snd (create_company cd ow fv d)))"
  using register_company_name_taken [of rd d fv]
    register_company_username_taken [of rd d fv]
    register_company_creates [of rd d fv]
    register_company_atomic [of rd fv d]
    register_company_has_admin [of d rd fv]
    create_company_taken_no_rows [of cd d ow fv]
    create_company_name_taken [of d cd ow fv]
    create_company_username_taken [of d cd ow fv]
    create_company_creates [of d cd fv ow]
    create_company_atomic [of cd ow fv d]
    create_company_has_admin [of d cd ow fv]
  by blast

text \<open>
  On the example database (company Acme, admin alice): a second Acme is refused, Globex
  with the username alice is refused, and Globex with the username bob is created with its
  admin, by either operation.
\<close>

theorem company_creation_witness:
  "register_company (example_registration ''Acme'' ''bob'') example_fresh example_db
     = (Inl (HTTPException 400 Company_name_exists), example_db)
   \<and> register_company (example_registration ''Globex'' ''alice'') example_fresh example_db
     = (Inl (HTTPException 400 Username_exists), example_db)
   \<and> snd (register_company (example_registration ''Globex'' ''bob'') example_fresh example_db)
     = example_db\<lparr>companies := [example_company, example_company2\<lparr>c_owner_id := ''system''\<rparr>],
         users := [example_admin, example_admin2]\<rparr>
   \<and> create_company (example_create ''Acme'' ''bob'') example_owner example_fresh example_db
     = (Inl (HTTPException 400 Company_name_exists), example_db)
   \<and> create_company (example_create ''Globex'' ''alice'') example_owner example_fresh example_db
     = (Inl (HTTPException 400 Username_exists), example_db)
   \<and> snd (create_company (example_create ''Globex'' ''bob'') example_owner example_fresh
         example_db)
     = example_db\<lparr>companies := [example_company, example_company2],
         users := [example_admin, example_admin2]\<rparr>
   \<and> every_company_has_admin (snd (create_company (example_create ''Globex'' ''bob'')
         example_owner example_fresh example_db))"
proof -
  have uniq: "unique_company_names example_db" "unique_usernames example_db"
    by (simp_all add: unique_company_names_def unique_usernames_def example_defs)
  have adm: "every_company_has_admin example_db"
    by (simp add: every_company_has_admin_def is_admin_of_def example_defs)
  have acme: "company_name_taken ''Acme'' example_db"
    by (simp add: company_name_taken_def example_defs)
  have globex: "\<not> company_name_taken ''Globex'' example_db"
    by (simp add: company_name_taken_def example_defs)
  have alice: "username_taken ''alice'' example_db"
    by (simp add: username_taken_def example_defs)
  have bob: "\<not> username_taken ''bob'' example_db"
    by (simp add: username_taken_def example_defs)
  have fresh: "f_company_id example_fresh \<notin> c_id ` set (companies example_db)"
    "f_admin_user_id example_fresh \<notin> u_id ` set (users example_db)"
    by (simp_all add: example_defs)
  have new: "with_company (new_company ''Globex'' ''system'' example_fresh)
        (new_admin ''bob'' ''bob@globex.example'' example_fresh) example_db
      = example_db\<lparr>companies := [example_company, example_company2\<lparr>c_owner_id := ''system''\<rparr>],
         users := [example_admin, example_admin2]\<rparr>"
    "with_company (new_company ''Globex'' ''o1'' example_fresh)
        (new_admin ''bob'' ''bob@globex.example'' example_fresh) example_db
      = example_db\<lparr>companies := [example_company, example_company2],
         users := [example_admin, example_admin2]\<rparr>"
    by (simp_all add: with_company_def new_company_def new_admin_def example_defs)
  note a = company_creation [of "example_registration ''Acme'' ''bob''" example_db
      example_fresh "example_create ''Acme'' ''bob''" example_owner]
  note b = company_creation [of "example_registration ''Globex'' ''alice''" example_db
      example_fresh "example_create ''Globex'' ''alice''" example_owner]
  note c = company_creation [of "example_registration ''Globex'' ''bob''" example_db
      example_fresh "example_create ''Globex'' ''bob''" example_owner]
  have sel: "reg_company_name (example_registration n u) = n"
    "reg_admin_username (example_registration n u) = u"
    "reg_admin_email (example_registration n u) = ''bob@globex.example''"
    "cc_name (example_create n u) = n" "cc_admin_username (example_create n u) = u"
    "cc_admin_email (example_create n u) = ''bob@globex.example''"
    "o_id example_owner = ''o1''" for n u
    by (simp_all add: example_registration_def example_create_def example_owner_def)
  from a acme uniq have a1:
    "register_company (example_registration ''Acme'' ''bob'') example_fresh example_db
       = (Inl (HTTPException 400 Company_name_exists), example_db)"
    "create_company (example_create ''Acme'' ''bob'') example_owner example_fresh example_db
       = (Inl (HTTPException 400 Company_name_exists), example_db)"
    by (simp_all add: sel)
  from b globex alice uniq have b1:
    "register_company (example_registration ''Globex'' ''alice'') example_fresh example_db
       = (Inl (HTTPException 400 Username_exists), example_db)"
    "create_company (example_create ''Globex'' ''alice'') example_owner example_fresh example_db
       = (Inl (HTTPException 400 Username_exists), example_db)"
    by (simp_all add: sel)
  from c globex bob uniq fresh new have c1:
    "snd (register_company (example_registration ''Globex'' ''bob'') example_fresh example_db)
       = example_db\<lparr>companies := [example_company, example_company2\<lparr>c_owner_id := ''system''\<rparr>],
           users := [example_admin, example_admin2]\<rparr>"
    "snd (create_company (example_create ''Globex'' ''bob'') example_owner example_fresh
         example_db)
       = example_db\<lparr>companies := [example_company, example_company2],
           users := [example_admin, example_admin2]\<rparr>"
    by (simp_all add: sel)
  from c adm have c2:
    "every_company_has_admin (snd (create_company (example_create ''Globex'' ''bob'')
         example_owner example_fresh example_db))"
    by blast
  from a1 b1 c1 c2 show ?thesis
    by simp
qed

section \<open>Deleting a company or an employee\<close>

lemma delete_time_entries_in_Nil: "delete_time_entries_in [] d = d"
  by (simp add: delete_time_entries_in_def)

lemma delete_company_unknown:
  "\<not> list_ex (\<lambda>c. c_id c = company_id) (companies d) \<Longrightarrow>
   delete_company company_id d = (Inl (HTTPException 404 Company_not_found), d)"
  by (simp add: delete_company_def scalar_one_or_none_def list_ex_iff filter_empty_conv
      split: list.splits)

lemma delete_company_known:
  assumes "pk_companies d" and "list_ex (\<lambda>c. c_id c = company_id) (companies d)"
  shows "delete_company company_id d =
     (Inr ''Company and all its data deleted successfully'', cascade company_id d)"
proof -
  obtain c where "find (\<lambda>c. c_id c = company_id) (companies d) = Some c"
    using find_Some_list_ex [OF assms(2)] by blast
  then have "scalar_one_or_none (filter (\<lambda>c. c_id c = company_id) (companies d)) = Inr (Some c)"
    using assms(1) by (simp add: pk_companies_def scalar_one_or_none_key)
  then show ?thesis
    by (simp add: delete_company_def cascade_def Let_def delete_time_entries_in_Nil)
qed

lemma cascade_tables:
  "users (cascade company_id d) = filter (\<lambda>u. u_company_id u \<noteq> company_id) (users d)"
  "employees (cascade company_id d) = filter (\<lambda>e. e_company_id e \<noteq> company_id) (employees d)"
  "companies (cascade company_id d) = filter (\<lambda>c. c_id c \<noteq> company_id) (companies d)"
  "time_entries (cascade company_id d) =
     filter (\<lambda>t. t_employee_id t \<notin> set (employee_ids_of company_id d)) (time_entries d)"
  by (simp_all add: cascade_def delete_company_row_def delete_employees_of_def
      delete_users_of_def delete_time_entries_in_def)

lemma cascade_nothing_left:
  "list_all (\<lambda>u. u_company_id u \<noteq> company_id) (users (cascade company_id d))"
  "list_all (\<lambda>e. e_company_id e \<noteq> company_id) (employees (cascade company_id d))"
  "list_all (\<lambda>c. c_id c \<noteq> company_id) (companies (cascade company_id d))"
  "list_all (\<lambda>t. t_employee_id t \<notin> set (employee_ids_of company_id d))
     (time_entries (cascade company_id d))"
  by (simp_all add: cascade_tables list_all_iff)

lemma delete_employee_foreign:
  assumes "\<not> list_ex (\<lambda>e. e_id e = employee_id \<and> e_company_id e = company_id) (employees d)"
  shows "delete_employee employee_id company_id d =
     (Inr ''Employee deleted successfully'',
      d\<lparr>time_entries := filter (\<lambda>t. t_employee_id t \<noteq> employee_id) (time_entries d)\<rparr>)"
proof -
  have "filter (\<lambda>e. \<not> (e_id e = employee_id \<and> e_company_id e = company_id)) (employees d)
      = employees d"
    using assms by (simp add: list_ex_iff filter_id_conv)
  then show ?thesis
    by (simp add: delete_employee_def Let_def)
qed

text \<open>
  C9. \<^verbatim>\<open>delete_company\<close> answers 404 and changes nothing when no company has the id.
  When one has (the id being the primary key), it succeeds, and the database afterwards
  is the result of the four deletions in their order: time entries of the company's
  employees, users, employees, company. No user and no employee of the company is left,
  no time entry of any employee the company had, and no company with that id.
\<close>

theorem delete_company_cascade:
  "(\<not> list_ex (\<lambda>c. c_id c = company_id) (companies d) \<longrightarrow>
      delete_company company_id d = (Inl (HTTPException 404 Company_not_found), d))
   \<and> (pk_companies d \<and> list_ex (\<lambda>c. c_id c = company_id) (companies d) \<longrightarrow>
      delete_company company_id d =
        (Inr ''Company and all its data deleted successfully'',
         delete_company_row company_id
           (delete_employees_of company_id
              (delete_users_of company_id
                 (delete_time_entries_in (employee_ids_of company_id d) d))))
      \<and> list_all (\<lambda>u. u_company_id u \<noteq> company_id) (users (snd (delete_company company_id d)))
      \<and> list_all (\<lambda>e. e_company_id e \<noteq> company_id)
            (employees (snd (delete_company company_id d)))
      \<and> list_all (\<lambda>t. \<not> list_ex (\<lambda>e. e_company_id e = company_id \<and> e_id e = t_employee_id t)
                          (employees d))
            (time_entries (snd (delete_company company_id d)))
      \<and> list_all (\<lambda>c. c_id c \<noteq> company_id) (companies (snd (delete_company company_id d))))"
proof (intro conjI impI)
  assume "\<not> list_ex (\<lambda>c. c_id c = company_id) (companies d)"
  then show "delete_company company_id d = (Inl (HTTPException 404 Company_not_found), d)"
    by (rule delete_company_unknown)
next
  assume a: "pk_companies d \<and> list_ex (\<lambda>c. c_id c = company_id) (companies d)"
  then have known: "delete_company company_id d =
      (Inr ''Company and all its data deleted successfully'', cascade company_id d)"
    using delete_company_known [of d company_id] by simp
  then show "delete_company company_id d =
        (Inr ''Company and all its data deleted successfully'',
         delete_company_row company_id
           (delete_employees_of company_id
              (delete_users_of company_id
                 (delete_time_entries_in (employee_ids_of company_id d) d))))"
    by (simp add: cascade_def)
  show "list_all (\<lambda>u. u_company_id u \<noteq> company_id)
      (users (snd (delete_company company_id d)))"
    by (simp add: known cascade_nothing_left)
  show "list_all (\<lambda>e. e_company_id e \<noteq> company_id)
      (employees (snd (delete_company company_id d)))"
    by (simp add: known cascade_nothing_left)
  show "list_all (\<lambda>c. c_id c \<noteq> company_id) (companies (snd (delete_company company_id d)))"
    by (simp add: known cascade_nothing_left)
  show "list_all (\<lambda>t. \<not> list_ex (\<lambda>e. e_company_id e = company_id \<and> e_id e = t_employee_id t)
                          (employees d))
      (time_entries (snd (delete_company company_id d)))"
    using cascade_nothing_left(4) [of company_id d]
    by (force simp: known list_all_iff list_ex_iff employee_ids_of_def)
qed

text \<open>
  Deleting Acme from the database of two companies leaves Globex with its admin, its
  employee and that employee's entry; deleting an unknown company answers 404.
\<close>

theorem delete_company_cascade_witness:
  "delete_company ''c1'' example_db_two =
     (Inr ''Company and all its data deleted successfully'',
      \<lparr>companies = [example_company2], users = [example_admin2],
       employees = [example_employee2],
       time_entries = [check_in_entry ''t9'' ''e2'' ''2024-05-01'' 47000000000]\<rparr>)
   \<and> delete_company ''c3'' example_db_two
       = (Inl (HTTPException 404 Company_not_found), example_db_two)"
proof -
  have pk: "pk_companies example_db_two"
    by (simp add: pk_companies_def example_defs)
  have known: "list_ex (\<lambda>c. c_id c = ''c1'') (companies example_db_two)"
    by (simp add: example_defs)
  have unknown: "\<not> list_ex (\<lambda>c. c_id c = ''c3'') (companies example_db_two)"
    by (simp add: example_defs)
  have after: "delete_company_row ''c1''
           (delete_employees_of ''c1''
              (delete_users_of ''c1''
                 (delete_time_entries_in (employee_ids_of ''c1'' example_db_two)
                    example_db_two)))
      = \<lparr>companies = [example_company2], users = [example_admin2],
         employees = [example_employee2],
         time_entries = [check_in_entry ''t9'' ''e2'' ''2024-05-01'' 47000000000]\<rparr>"
    by (simp add: delete_company_row_def delete_employees_of_def delete_users_of_def
        delete_time_entries_in_def employee_ids_of_def check_in_entry_def example_defs)
  from delete_company_cascade [of "''c1''" example_db_two] pk known after
    delete_company_cascade [of "''c3''" example_db_two] unknown
  show ?thesis
    by simp
qed

text \<open>
  C10. When no employee with the given id belongs to the caller's company (the id is
  another company's employee, or nobody's), \<^verbatim>\<open>delete_employee\<close> leaves the employees as
  they were, deletes every time entry carrying that employee id, and answers with the
  success message.
\<close>

theorem delete_employee_not_scoped:
  assumes "\<not> list_ex (\<lambda>e. e_id e = employee_id \<and> e_company_id e = company_id) (employees d)"
  shows "delete_employee employee_id company_id d =
       (Inr ''Employee deleted successfully'',
        d\<lparr>time_entries := filter (\<lambda>t. t_employee_id t \<noteq> employee_id) (time_entries d)\<rparr>)
     \<and> employees (snd (delete_employee employee_id company_id d)) = employees d
     \<and> list_all (\<lambda>t. t_employee_id t \<noteq> employee_id)
         (time_entries (snd (delete_employee employee_id company_id d)))"
  using delete_employee_foreign [OF assms] by (simp add: list_all_iff)

text \<open>
  The admin of Globex (c2) deletes the id e1, an employee of Acme: Acme's employee stays,
  and the employee's open entry t1 is gone.
\<close>

theorem delete_employee_not_scoped_witness:
  "\<not> list_ex (\<lambda>e. e_id e = ''e1'' \<and> e_company_id e = ''c2'') (employees example_db_two)
   \<and> list_ex (\<lambda>e. e_id e = ''e1'' \<and> e_company_id e = ''c1'') (employees example_db_two)
   \<and> delete_employee ''e1'' ''c2'' example_db_two =
       (Inr ''Employee deleted successfully'',
        example_db_two\<lparr>time_entries :=
          [check_in_entry ''t9'' ''e2'' ''2024-05-01'' 47000000000]\<rparr>)"
proof -
  have foreign: "\<not> list_ex (\<lambda>e. e_id e = ''e1'' \<and> e_company_id e = ''c2'')
      (employees example_db_two)"
    by (simp add: example_defs)
  have other: "list_ex (\<lambda>e. e_id e = ''e1'' \<and> e_company_id e = ''c1'')
      (employees example_db_two)"
    by (simp add: example_defs)
  have "filter (\<lambda>t. t_employee_id t \<noteq> ''e1'') (time_entries example_db_two)
      = [check_in_entry ''t9'' ''e2'' ''2024-05-01'' 47000000000]"
    by (simp add: check_in_entry_def example_defs)
  with delete_employee_not_scoped [OF foreign] foreign other show ?thesis
    by simp
qed

end
